theory Spec2Isabelle
  imports Complex_Main
begin

section \<open>Python values, exceptions and the protocol client\<close>

text \<open>
  The server in \<^verbatim>\<open>workgroups_track/cobotta_mcp/mcp_server.py\<close> is dynamically typed:
  argument bags, results and log entries are dictionaries of JSON-like values. Dictionaries
  are association lists in insertion order. Numbers that Python holds as floats are exact
  rationals here: rounding of IEEE doubles is not part of the model.
\<close>

datatype val =
    VNone
  | VBool bool
  | VInt int
  | VNum rat
  | VStr string
  | VList "val list"
  | VDict "(string \<times> val) list"

type_synonym dict = "(string \<times> val) list"

text \<open>The exceptions the server raises itself or receives from the client library.\<close>

datatype error =
    ORiNException int string
  | Exception string
  | ValueError string
  | KeyError string
  | TypeError string
  | IndexError string
  | UnboundLocalError string
  | AttributeError string

text \<open>\<^verbatim>\<open>str(e)\<close>: the message; a \<^verbatim>\<open>KeyError\<close> carries its key as printed.\<close>

fun exc_str :: "error \<Rightarrow> string" where
  "exc_str (ORiNException h m) = m"
| "exc_str (Exception m) = m"
| "exc_str (ValueError m) = m"
| "exc_str (KeyError m) = m"
| "exc_str (TypeError m) = m"
| "exc_str (IndexError m) = m"
| "exc_str (UnboundLocalError m) = m"
| "exc_str (AttributeError m) = m"

text \<open>Python truthiness, as used by \<^verbatim>\<open>if not state.robot_handle\<close>.\<close>

fun truthy :: "val \<Rightarrow> bool" where
  "truthy VNone = False"
| "truthy (VBool b) = b"
| "truthy (VInt i) = (i \<noteq> 0)"
| "truthy (VNum r) = (r \<noteq> 0)"
| "truthy (VStr s) = (s \<noteq> [])"
| "truthy (VList xs) = (xs \<noteq> [])"
| "truthy (VDict d) = (d \<noteq> [])"

text \<open>\<^verbatim>\<open>len(v)\<close>; \<open>None\<close> where Python raises \<^verbatim>\<open>TypeError\<close>.\<close>

fun py_len :: "val \<Rightarrow> nat option" where
  "py_len (VList xs) = Some (length xs)"
| "py_len (VStr s) = Some (length s)"
| "py_len (VDict d) = Some (length d)"
| "py_len VNone = None"
| "py_len (VBool b) = None"
| "py_len (VInt i) = None"
| "py_len (VNum r) = None"

text \<open>\<^verbatim>\<open>d.get(k, default)\<close> and \<^verbatim>\<open>d[k]\<close>.\<close>

definition dict_get :: "dict \<Rightarrow> string \<Rightarrow> val \<Rightarrow> val" where
  "dict_get d k dflt = (case map_of d k of None \<Rightarrow> dflt | Some v \<Rightarrow> v)"

definition dict_item :: "dict \<Rightarrow> string \<Rightarrow> error + val" where
  "dict_item d k = (case map_of d k of None \<Rightarrow> Inl (KeyError (CHR 0x27 # k @ [CHR 0x27])) | Some v \<Rightarrow> Inr v)"

text \<open>
  The b-CAP client (\<^verbatim>\<open>bcapclient.BCAPClient\<close>) is an external library. Every use of it
  is a \<open>call\<close>; the constructor is a call too. Handles are whatever the client returned.
\<close>

datatype call =
    BCAPClient val val val
  | controller_connect val val val val
  | controller_disconnect val
  | controller_getrobot val val val
  | controller_getrobotnames val val
  | controller_getvariablenames val val
  | controller_execute val string val
  | robot_release val
  | robot_getvariable val val val
  | robot_getvariablenames val val
  | robot_execute val string val
  | robot_move val int val val
  | robot_speed val val val
  | robot_gohome val
  | variable_getvalue val
  | variable_release val

datatype reply = Raises error | Returns val

text \<open>
  The environment of the process: the client as a black box that answers each call from the
  history of all earlier calls (so any call may fail at any point), the wall clock behind
  \<^verbatim>\<open>datetime.now().isoformat()\<close>, and Python's \<^verbatim>\<open>str()\<close> on values, used to build
  messages, with the float format \<^verbatim>\<open>:.1f\<close>, the parsing of a speed out of an option
  string and the error codes of \<^verbatim>\<open>orinexception.HResult\<close>. Logging through \<^verbatim>\<open>logger\<close> and the pauses of \<^verbatim>\<open>time.sleep\<close> have no
  effect on the state and are left out.
\<close>

record HResult =
  E_TIMEOUT :: int
  E_NOT_CONNECTED :: int
  E_ACCESSDENIED :: int
  E_INVALIDARG :: int
  E_CAO_OBJECT_NOTFOUND :: int
  E_CAO_VARIANT_TYPE_NOSUPPORT :: int
  E_FAIL :: int

record env =
  bcap :: "call list \<Rightarrow> call \<Rightarrow> reply"
  now_iso :: "nat \<Rightarrow> string"
  py_str :: "val \<Rightarrow> string"
  fmt_1f :: "val \<Rightarrow> string"
  speed_in_option :: "val \<Rightarrow> error + val"
  hresults :: HResult

section \<open>Session state\<close>

text \<open>The object a successful \<^verbatim>\<open>BCAPClient(host, port, timeout)\<close> yields.\<close>

datatype client_obj = ClientObj val val val

record ServerState =
  client :: "client_obj option"
  controller_handle :: val
  robot_handle :: val
  connection_info :: dict
  operation_log :: "val list"

text \<open>
  The module-level \<^verbatim>\<open>state = ServerState()\<close> together with what the process has done
  so far: the client calls issued, oldest first, and the number of clock reads.
\<close>

record world =
  state :: ServerState
  calls :: "call list"
  clock :: nat

definition init_state :: ServerState where
  "init_state = \<lparr>client = None, controller_handle = VNone, robot_handle = VNone,
                 connection_info = [], operation_log = []\<rparr>"

definition init_world :: world where
  "init_world = \<lparr>state = init_state, calls = [], clock = 0\<rparr>"

definition invoke :: "env \<Rightarrow> call \<Rightarrow> world \<Rightarrow> reply \<times> world" where
  "invoke E c w = (bcap E (calls w) c, w\<lparr>calls := calls w @ [c]\<rparr>)"

text \<open>
  A method call on \<^verbatim>\<open>state.client\<close>: on \<^verbatim>\<open>None\<close> the attribute lookup raises and
  nothing reaches the client.
\<close>

definition client_call :: "env \<Rightarrow> call \<Rightarrow> world \<Rightarrow> reply \<times> world" where
  "client_call E c w =
     (case client (state w) of
        None \<Rightarrow> (Raises (AttributeError ''NoneType object has no attribute''), w)
      | Some obj \<Rightarrow> invoke E c w)"

definition log_operation :: "env \<Rightarrow> string \<Rightarrow> dict \<Rightarrow> val \<Rightarrow> val \<Rightarrow> world \<Rightarrow> world" where
  "log_operation E operation params result err w =
     (let log_entry = VDict
            [(''timestamp'', VStr (now_iso E (clock w))),
             (''operation'', VStr operation),
             (''params'', VDict params),
             (''result'', if result \<noteq> VNone then VStr (py_str E result) else VNone),
             (''error'', err)]
      in w\<lparr>state := (state w)\<lparr>operation_log := operation_log (state w) @ [log_entry]\<rparr>,
           clock := Suc (clock w)\<rparr>)"

text \<open>\<^verbatim>\<open>ServerState.reset\<close>: the result is the exception that escaped, if any.\<close>

definition reset :: "env \<Rightarrow> world \<Rightarrow> error option \<times> world" where
  "reset E w =
     (case (if client (state w) \<noteq> None \<and> truthy (robot_handle (state w))
            then invoke E (robot_release (robot_handle (state w))) w
            else (Returns VNone, w)) of
        (Raises e, w1) \<Rightarrow> (Some e, w1)
      | (Returns u, w1) \<Rightarrow>
          (case (if client (state w1) \<noteq> None \<and> truthy (controller_handle (state w1))
                 then invoke E (controller_disconnect (controller_handle (state w1))) w1
                 else (Returns VNone, w1)) of
             (Raises e, w2) \<Rightarrow> (Some e, w2)
           | (Returns u', w2) \<Rightarrow>
               (None, w2\<lparr>state := (state w2)\<lparr>client := None, controller_handle := VNone,
                                              robot_handle := VNone, connection_info := []\<rparr>\<rparr>)))"

section \<open>Connection handlers\<close>

text \<open>
  A handler returns \<open>Inl e\<close> when the exception \<open>e\<close> escapes it and \<open>Inr r\<close> with the result
  dictionary it serialises otherwise.
\<close>

type_synonym outcome = "error + val"

definition handle_connect :: "env \<Rightarrow> dict \<Rightarrow> world \<Rightarrow> outcome \<times> world" where
  "handle_connect E args w =
     (case dict_item args ''host'' of
        Inl e \<Rightarrow> (Inl e, w)
      | Inr host \<Rightarrow>
          (let port = dict_get args ''port'' (VInt 5007);
               timeout = dict_get args ''timeout'' (VNum 3)
           in case (if client (state w) \<noteq> None then reset E w else (None, w)) of
                (Some e, w1) \<Rightarrow> (Inl e, w1)
              | (None, w1) \<Rightarrow>
                  (case invoke E (BCAPClient host port timeout) w1 of
                     (Raises e, w2) \<Rightarrow> (Inl e, w2)
                   | (Returns u, w2) \<Rightarrow>
                       (let info = [(''host'', host), (''port'', port), (''timeout'', timeout),
                                    (''connected_at'', VStr (now_iso E (clock w2)))];
                            w3 = w2\<lparr>state := (state w2)\<lparr>client := Some (ClientObj host port timeout),
                                                           connection_info := info\<rparr>,
                                    clock := Suc (clock w2)\<rparr>;
                            result = VDict
                              [(''success'', VBool True),
                               (''message'', VStr (''Successfully connected to '' @ py_str E host
                                                    @ '':'' @ py_str E port)),
                               (''connection_info'', VDict info)]
                        in (Inr result, log_operation E ''bcap_connect'' args result VNone w3)))))"

definition handle_disconnect :: "env \<Rightarrow> dict \<Rightarrow> world \<Rightarrow> outcome \<times> world" where
  "handle_disconnect E args w =
     (if client (state w) = None
      then (Inr (VDict [(''success'', VBool False), (''error'', VStr ''Not connected'')]), w)
      else (case reset E w of
              (Some e, w1) \<Rightarrow> (Inl e, w1)
            | (None, w1) \<Rightarrow>
                (let result = VDict [(''success'', VBool True), (''message'', VStr ''Disconnected'')]
                 in (Inr result, log_operation E ''bcap_disconnect'' args result VNone w1))))"

definition handle_get_connection_status :: "env \<Rightarrow> dict \<Rightarrow> world \<Rightarrow> outcome \<times> world" where
  "handle_get_connection_status E args w =
     (Inr (VDict
        [(''connected'', VBool (client (state w) \<noteq> None)),
         (''controller_connected'', VBool (controller_handle (state w) \<noteq> VNone)),
         (''robot_connected'', VBool (robot_handle (state w) \<noteq> VNone)),
         (''connection_info'',
            if client (state w) \<noteq> None then VDict (connection_info (state w)) else VNone)]), w)"

definition handle_controller_connect :: "env \<Rightarrow> dict \<Rightarrow> world \<Rightarrow> outcome \<times> world" where
  "handle_controller_connect E args w =
     (if client (state w) = None
      then (Inl (Exception ''Please call bcap_connect first to establish connection''), w)
      else (let name = dict_get args ''name'' (VStr '''');
                provider = dict_get args ''provider'' (VStr ''CaoProv.DENSO.VRC'');
                machine = dict_get args ''machine'' (VStr ''localhost'');
                option = dict_get args ''option'' (VStr '''')
            in case invoke E (controller_connect name provider machine option) w of
                 (Raises e, w1) \<Rightarrow> (Inl e, w1)
               | (Returns h, w1) \<Rightarrow>
                   (let w2 = w1\<lparr>state := (state w1)\<lparr>controller_handle := h\<rparr>\<rparr>;
                        result = VDict
                          [(''success'', VBool True),
                           (''controller_handle'', h),
                           (''message'', VStr ''Successfully connected to controller'')]
                    in (Inr result, log_operation E ''bcap_controller_connect'' args result VNone w2))))"

definition handle_robot_connect :: "env \<Rightarrow> dict \<Rightarrow> world \<Rightarrow> outcome \<times> world" where
  "handle_robot_connect E args w =
     (if \<not> truthy (controller_handle (state w))
      then (Inl (Exception ''Please call bcap_controller_connect first''), w)
      else (let name = dict_get args ''name'' (VStr ''Arm'');
                option = dict_get args ''option'' (VStr '''')
            in case client_call E (controller_getrobot (controller_handle (state w)) name option) w of
                 (Raises e, w1) \<Rightarrow> (Inl e, w1)
               | (Returns h, w1) \<Rightarrow>
                   (let w2 = w1\<lparr>state := (state w1)\<lparr>robot_handle := h\<rparr>\<rparr>;
                        result = VDict
                          [(''success'', VBool True),
                           (''robot_handle'', h),
                           (''message'', VStr (''Successfully connected to robot '' @ [CHR 0x27]
                                                @ py_str E name @ [CHR 0x27]))]
                    in (Inr result, log_operation E ''bcap_robot_connect'' args result VNone w2))))"

section \<open>Reading the operation log\<close>

text \<open>The slice \<^verbatim>\<open>xs[i:]\<close>: a negative start counts from the end, and both ends clamp.\<close>

definition slice_from :: "int \<Rightarrow> 'a list \<Rightarrow> 'a list" where
  "slice_from i xs =
     (let n = int (length xs);
          start = (if i < 0 then max (n + i) 0 else min i n)
      in drop (nat start) xs)"

text \<open>
  \<^verbatim>\<open>-limit\<close> as a slice index: an integer (a \<^verbatim>\<open>bool\<close> is one), otherwise
  \<^verbatim>\<open>TypeError\<close>.
\<close>

fun neg_index :: "val \<Rightarrow> error + int" where
  "neg_index (VInt n) = Inr (- n)"
| "neg_index (VBool b) = Inr (if b then - 1 else 0)"
| "neg_index v = Inl (TypeError ''slice indices must be integers'')"

definition handle_get_operation_log :: "env \<Rightarrow> dict \<Rightarrow> world \<Rightarrow> outcome \<times> world" where
  "handle_get_operation_log E args w =
     (let limit = dict_get args ''limit'' (VInt 50)
      in case neg_index limit of
           Inl e \<Rightarrow> (Inl e, w)
         | Inr i \<Rightarrow>
             (let logs = slice_from i (operation_log (state w))
              in (Inr (VDict
                   [(''success'', VBool True),
                    (''total_operations'', VInt (int (length (operation_log (state w))))),
                    (''returned_count'', VInt (int (length logs))),
                    (''logs'', VList logs)]), w)))"

section \<open>Trajectory execution\<close>

text \<open>
  \<^verbatim>\<open>args["trajectory"]\<close> is an array by the tool's input schema; the model raises
  \<^verbatim>\<open>TypeError\<close> for anything else. A point may be any value.
\<close>

fun trajectory_points :: "val \<Rightarrow> error + val list" where
  "trajectory_points (VList pts) = Inr pts"
| "trajectory_points v = Inl (TypeError ''trajectory is not an array'')"

text \<open>The validation loop: the first point whose length is not 6 raises.\<close>

fun validate_points :: "env \<Rightarrow> nat \<Rightarrow> val list \<Rightarrow> error option" where
  "validate_points E i [] = None"
| "validate_points E i (point # rest) =
     (case py_len point of
        None \<Rightarrow> Some (TypeError ''object has no len()'')
      | Some n \<Rightarrow>
          if n \<noteq> 6
          then Some (ValueError (''Trajectory point '' @ py_str E (VInt (int i + 1))
                                 @ '' must have 6 joint angle values''))
          else validate_points E (Suc i) rest)"

text \<open>
  Reading a robot variable: get the variable handle, read its value, release the handle.
  \<open>ReadFailed got e\<close> is the exception that ended the sequence, with the value when
  \<^verbatim>\<open>variable_getvalue\<close> had already returned it. The first argument is the client the
  calls go to.
\<close>

datatype reading = Read val | ReadFailed "val option" error

definition read_variable_opt ::
  "(call \<Rightarrow> world \<Rightarrow> reply \<times> world) \<Rightarrow> val \<Rightarrow> val \<Rightarrow> val \<Rightarrow> world \<Rightarrow> reading \<times> world" where
  "read_variable_opt on rh name option w =
     (case on (robot_getvariable rh name option) w of
        (Raises e, w1) \<Rightarrow> (ReadFailed None e, w1)
      | (Returns var_handle, w1) \<Rightarrow>
          (case on (variable_getvalue var_handle) w1 of
             (Raises e, w2) \<Rightarrow> (ReadFailed None e, w2)
           | (Returns v, w2) \<Rightarrow>
               (case on (variable_release var_handle) w2 of
                  (Raises e, w3) \<Rightarrow> (ReadFailed (Some v) e, w3)
                | (Returns u, w3) \<Rightarrow> (Read v, w3))))"

definition read_variable_on ::
  "(call \<Rightarrow> world \<Rightarrow> reply \<times> world) \<Rightarrow> val \<Rightarrow> string \<Rightarrow> world \<Rightarrow> reading \<times> world" where
  "read_variable_on on rh name w = read_variable_opt on rh (VStr name) (VStr '''') w"

definition read_variable :: "env \<Rightarrow> val \<Rightarrow> string \<Rightarrow> world \<Rightarrow> reading \<times> world" where
  "read_variable E rh name w = read_variable_on (client_call E) rh name w"

text \<open>
  The guarded capture of the initial joint angles: a failure is only logged, and
  \<^verbatim>\<open>initial_angles\<close> keeps what was assigned before it. \<open>as_list\<close> is the conversion
  applied last: \<^verbatim>\<open>list(initial_angles)\<close> or \<^verbatim>\<open>list(initial_angles[:6])\<close>.
\<close>

definition initial_angles_of :: "env \<Rightarrow> val \<Rightarrow> (val \<Rightarrow> val) \<Rightarrow> world \<Rightarrow> val \<times> world" where
  "initial_angles_of E rh as_list w =
     (case read_variable E rh ''@CURRENT_ANGLE'' w of
        (ReadFailed None e, w1) \<Rightarrow> (VNone, w1)
      | (ReadFailed (Some v) e, w1) \<Rightarrow> (v, w1)
      | (Read v, w1) \<Rightarrow> (as_list v, w1))"

definition executed_entry :: "nat \<Rightarrow> val \<Rightarrow> val" where
  "executed_entry i p =
     VDict [(''index'', VInt (int i + 1)), (''angles'', p), (''status'', VStr ''success'')]"

definition failed_entry :: "nat \<Rightarrow> val \<Rightarrow> error \<Rightarrow> val" where
  "failed_entry i p e =
     VDict [(''index'', VInt (int i + 1)), (''angles'', p), (''error'', VStr (exc_str e))]"

definition take_arm :: "val \<Rightarrow> call" where
  "take_arm rh = robot_execute rh ''TakeArm'' (VList [VInt 0, VInt 0])"

definition give_arm :: "val \<Rightarrow> call" where
  "give_arm rh = robot_execute rh ''GiveArm'' VNone"

definition joint_move :: "val \<Rightarrow> val \<Rightarrow> val \<Rightarrow> call" where
  "joint_move rh p move_option = robot_move rh 1 (VList [p, VStr ''J'', VStr ''@E'']) move_option"

text \<open>The loop over the trajectory, from point number \<open>i\<close> (counted from 0).\<close>

fun run_points ::
  "env \<Rightarrow> val \<Rightarrow> val \<Rightarrow> nat \<Rightarrow> val list \<Rightarrow> val list \<Rightarrow> val list \<Rightarrow> world
     \<Rightarrow> val list \<times> val list \<times> world" where
  "run_points E rh move_option i [] executed_points failed_points w =
     (executed_points, failed_points, w)"
| "run_points E rh move_option i (p # ps) executed_points failed_points w =
     (case client_call E (joint_move rh p move_option) w of
        (Returns u, w1) \<Rightarrow>
          run_points E rh move_option (Suc i) ps (executed_points @ [executed_entry i p])
            failed_points w1
      | (Raises e, w1) \<Rightarrow>
          run_points E rh move_option (Suc i) ps executed_points
            (failed_points @ [failed_entry i p e]) w1)"

definition handle_robot_execute_trajectory :: "env \<Rightarrow> dict \<Rightarrow> world \<Rightarrow> outcome \<times> world" where
  "handle_robot_execute_trajectory E args w =
     (if \<not> truthy (robot_handle (state w))
      then (Inl (Exception ''Please call bcap_robot_connect first''), w)
      else case dict_item args ''trajectory'' of
        Inl e \<Rightarrow> (Inl e, w)
      | Inr trajectory \<Rightarrow>
         (case trajectory_points trajectory of
            Inl e \<Rightarrow> (Inl e, w)
          | Inr pts \<Rightarrow>
             (case validate_points E 0 pts of
                Some e \<Rightarrow> (Inl e, w)
              | None \<Rightarrow>
                 (let rh = robot_handle (state w);
                      option = dict_get args ''option'' (VStr '''');
                      (initial_angles, w1) = initial_angles_of E rh (\<lambda>v. v) w;
                      (given, w2) = client_call E (give_arm rh) w1
                  in case client_call E (take_arm rh) w2 of
                       (Raises e, w3) \<Rightarrow> (Inl e, w3)
                     | (Returns u, w3) \<Rightarrow>
                        (let move_option = (if truthy option then option else VStr '''');
                             (executed_points, failed_points, w4) =
                                run_points E rh move_option 0 pts [] [] w3;
                             result = VDict
                               [(''success'', VBool (length failed_points = 0)),
                                (''message'', VStr (''Trajectory execution completed: ''
                                    @ py_str E (VInt (int (length executed_points))) @ ''/''
                                    @ py_str E (VInt (int (length pts))) @ '' points successful'')),
                                (''total_points'', VInt (int (length pts))),
                                (''executed_points'', VInt (int (length executed_points))),
                                (''failed_points'', VInt (int (length failed_points))),
                                (''initial_angles'', initial_angles),
                                (''trajectory'', trajectory),
                                (''executed_details'', VList executed_points),
                                (''failed_details'',
                                   if failed_points \<noteq> [] then VList failed_points else VNone),
                                (''warning'', VStr ''Robot has completed trajectory motion, please check final position'')]
                         in (Inr result,
                             log_operation E ''bcap_robot_execute_trajectory'' args result VNone w4))))))"

subsection \<open>Slave mode\<close>

text \<open>\<^verbatim>\<open>list(point) + [0, 0]\<close>: the eight values \<^verbatim>\<open>slvMove\<close> takes.\<close>

fun py_list :: "val \<Rightarrow> val list" where
  "py_list (VList xs) = xs"
| "py_list (VStr s) = map (\<lambda>c. VStr [c]) s"
| "py_list (VDict d) = map (\<lambda>kv. VStr (fst kv)) d"
| "py_list v = []"

definition slv_move :: "val \<Rightarrow> val \<Rightarrow> call" where
  "slv_move rh p = robot_execute rh ''slvMove'' (VList (py_list p @ [VInt 0, VInt 0]))"

definition slv_change_mode :: "val \<Rightarrow> int \<Rightarrow> call" where
  "slv_change_mode rh mode = robot_execute rh ''slvChangeMode'' (VInt mode)"

text \<open>The points after the first: \<^verbatim>\<open>for i in range(1, len(trajectory))\<close>.\<close>

fun stream_points ::
  "env \<Rightarrow> val \<Rightarrow> nat \<Rightarrow> val list \<Rightarrow> val list \<Rightarrow> val list \<Rightarrow> world
     \<Rightarrow> val list \<times> val list \<times> world" where
  "stream_points E rh i [] executed_points failed_points w = (executed_points, failed_points, w)"
| "stream_points E rh i (p # ps) executed_points failed_points w =
     (case client_call E (slv_move rh p) w of
        (Returns u, w1) \<Rightarrow>
          stream_points E rh (Suc i) ps (executed_points @ [executed_entry i p]) failed_points w1
      | (Raises e, w1) \<Rightarrow>
          stream_points E rh (Suc i) ps executed_points (failed_points @ [failed_entry i p e]) w1)"

text \<open>
  The body of the outer \<^verbatim>\<open>try\<close>: the exception that left it, if any, and the two lists as
  they stand at that moment.
\<close>

definition slave_try ::
  "env \<Rightarrow> val \<Rightarrow> val list \<Rightarrow> world \<Rightarrow> error option \<times> val list \<times> val list \<times> world" where
  "slave_try E rh pts w =
     (case client_call E (take_arm rh) w of
        (Raises e, w1) \<Rightarrow> (Some e, [], [], w1)
      | (Returns u1, w1) \<Rightarrow>
     (case client_call E (slv_change_mode rh 0x202) w1 of
        (Raises e, w2) \<Rightarrow> (Some e, [], [], w2)
      | (Returns u2, w2) \<Rightarrow>
     (case (case pts of
              [] \<Rightarrow> (None, [], [], w2)
            | p # ps \<Rightarrow>
               (case client_call E (slv_move rh p) w2 of
                  (Raises e, w3) \<Rightarrow> (Some e, [], [failed_entry 0 p e], w3)
                | (Returns u3, w3) \<Rightarrow>
                    (case stream_points E rh 1 ps [executed_entry 0 p] [] w3 of
                       (ex, fl, w4) \<Rightarrow> (None, ex, fl, w4)))) of
        (Some e, ex, fl, w5) \<Rightarrow> (Some e, ex, fl, w5)
      | (None, ex, fl, w5) \<Rightarrow>
     (case client_call E (slv_change_mode rh 0x000) w5 of
        (Raises e, w6) \<Rightarrow> (Some e, ex, fl, w6)
      | (Returns u6, w6) \<Rightarrow>
     (case client_call E (give_arm rh) w6 of
        (Raises e, w7) \<Rightarrow> (Some e, ex, fl, w7)
      | (Returns u7, w7) \<Rightarrow> (None, ex, fl, w7))))))"

text \<open>
  The handler of the outer \<^verbatim>\<open>except\<close>: one guarded block holding both cleanup calls, so
  a failure of the first skips the second.
\<close>

definition slave_cleanup :: "env \<Rightarrow> val \<Rightarrow> world \<Rightarrow> world" where
  "slave_cleanup E rh w =
     (case client_call E (slv_change_mode rh 0x000) w of
        (Raises e, w1) \<Rightarrow> w1
      | (Returns u, w1) \<Rightarrow> snd (client_call E (give_arm rh) w1))"

fun slice_to_6 :: "val \<Rightarrow> val" where
  "slice_to_6 (VList xs) = VList (take 6 xs)"
| "slice_to_6 v = v"

definition handle_robot_execute_slave_trajectory :: "env \<Rightarrow> dict \<Rightarrow> world \<Rightarrow> outcome \<times> world" where
  "handle_robot_execute_slave_trajectory E args w =
     (if \<not> truthy (robot_handle (state w))
      then (Inl (Exception ''Please call bcap_robot_connect first''), w)
      else case dict_item args ''trajectory'' of
        Inl e \<Rightarrow> (Inl e, w)
      | Inr trajectory \<Rightarrow>
         (case trajectory_points trajectory of
            Inl e \<Rightarrow> (Inl e, w)
          | Inr pts \<Rightarrow>
             (case validate_points E 0 pts of
                Some e \<Rightarrow> (Inl e, w)
              | None \<Rightarrow>
                 (let rh = robot_handle (state w);
                      (initial_angles, w1) = initial_angles_of E rh slice_to_6 w
                  in case slave_try E rh pts w1 of
                       (Some e, executed_points, failed_points, w2) \<Rightarrow>
                         (let error_msg = exc_str e;
                              w3 = slave_cleanup E rh w2;
                              result = VDict
                                [(''success'', VBool False),
                                 (''message'', VStr (''Trajectory execution failed: '' @ error_msg)),
                                 (''total_points'', VInt (int (length pts))),
                                 (''executed_points'', VInt (int (length executed_points))),
                                 (''failed_points'', VInt (int (length failed_points))),
                                 (''initial_angles'', initial_angles),
                                 (''error'', VStr error_msg)]
                          in (Inr result,
                              log_operation E ''bcap_robot_execute_slave_trajectory'' args result VNone w3))
                     | (None, executed_points, failed_points, w2) \<Rightarrow>
                         (let result = VDict
                                [(''success'', VBool (length failed_points = 0)),
                                 (''message'', VStr (''Slave mode trajectory execution completed: ''
                                     @ py_str E (VInt (int (length executed_points))) @ ''/''
                                     @ py_str E (VInt (int (length pts))) @ '' points successful'')),
                                 (''total_points'', VInt (int (length pts))),
                                 (''executed_points'', VInt (int (length executed_points))),
                                 (''failed_points'', VInt (int (length failed_points))),
                                 (''initial_angles'', initial_angles),
                                 (''trajectory'', trajectory),
                                 (''executed_details'', VList executed_points),
                                 (''failed_details'',
                                    if failed_points \<noteq> [] then VList failed_points else VNone),
                                 (''mode'', VStr ''slave_mode''),
                                 (''warning'', VStr ''Robot has completed slave mode trajectory motion, please check final position'')]
                          in (Inr result,
                              log_operation E ''bcap_robot_execute_slave_trajectory'' args result VNone w2))))))"

section \<open>Pick and place\<close>

text \<open>
  Arithmetic on numbers. Two integers give an integer, a float operand gives a float;
  \<^verbatim>\<open>/\<close> always gives a float. The distances are numbers by the tool's input schema;
  the model raises \<^verbatim>\<open>TypeError\<close> on any other operand.
\<close>

fun num_of :: "val \<Rightarrow> rat option" where
  "num_of (VInt i) = Some (of_int i)"
| "num_of (VNum r) = Some r"
| "num_of (VBool b) = Some (if b then 1 else 0)"
| "num_of VNone = None"
| "num_of (VStr s) = None"
| "num_of (VList xs) = None"
| "num_of (VDict d) = None"

fun is_float :: "val \<Rightarrow> bool" where
  "is_float (VNum r) = True"
| "is_float v = False"

definition py_arith :: "(rat \<Rightarrow> rat \<Rightarrow> rat) \<Rightarrow> val \<Rightarrow> val \<Rightarrow> error + val" where
  "py_arith f a b =
     (case (num_of a, num_of b) of
        (Some p, Some q) \<Rightarrow>
          Inr (if is_float a \<or> is_float b then VNum (f p q) else VInt \<lfloor>f p q\<rfloor>)
      | _ \<Rightarrow> Inl (TypeError ''unsupported operand type(s)''))"

definition py_add :: "val \<Rightarrow> val \<Rightarrow> error + val" where
  "py_add = py_arith (\<lambda>p q. p + q)"

definition py_sub :: "val \<Rightarrow> val \<Rightarrow> error + val" where
  "py_sub = py_arith (\<lambda>p q. p - q)"

definition py_mul :: "val \<Rightarrow> val \<Rightarrow> error + val" where
  "py_mul = py_arith (\<lambda>p q. p * q)"

definition py_truediv :: "val \<Rightarrow> val \<Rightarrow> error + val" where
  "py_truediv a b =
     (case (num_of a, num_of b) of
        (Some p, Some q) \<Rightarrow>
          if q = 0 then Inl (Exception ''division by zero'') else Inr (VNum (p / q))
      | _ \<Rightarrow> Inl (TypeError ''unsupported operand type(s)''))"

text \<open>\<^verbatim>\<open>v[i]\<close> for a constant index and \<^verbatim>\<open>v[:6]\<close>.\<close>

fun py_index :: "env \<Rightarrow> val \<Rightarrow> nat \<Rightarrow> error + val" where
  "py_index E (VList xs) i =
     (if i < length xs then Inr (xs ! i) else Inl (IndexError ''list index out of range''))"
| "py_index E (VStr s) i =
     (if i < length s then Inr (VStr [s ! i]) else Inl (IndexError ''string index out of range''))"
| "py_index E (VDict d) i = Inl (KeyError (py_str E (VInt (int i))))"
| "py_index E v i = Inl (TypeError ''object is not subscriptable'')"

fun index_all :: "env \<Rightarrow> val \<Rightarrow> nat list \<Rightarrow> error + val list" where
  "index_all E v [] = Inr []"
| "index_all E v (i # rest) =
     (case py_index E v i of
        Inl e \<Rightarrow> Inl e
      | Inr a \<Rightarrow> (case index_all E v rest of Inl e \<Rightarrow> Inl e | Inr as \<Rightarrow> Inr (a # as)))"

fun py_slice6 :: "val \<Rightarrow> error + val" where
  "py_slice6 (VList xs) = Inr (VList (take 6 xs))"
| "py_slice6 (VStr s) = Inr (VStr (take 6 s))"
| "py_slice6 v = Inl (TypeError ''object is not subscriptable'')"

text \<open>The two lists the saga accumulates.\<close>

record saga =
  steps :: "val list"
  errors :: "val list"

definition step_failed :: "val \<Rightarrow> string \<Rightarrow> string \<Rightarrow> saga \<Rightarrow> saga" where
  "step_failed n action error_msg sg =
     \<lparr>steps = steps sg @ [VDict [(''step'', n), (''action'', VStr action),
                                 (''status'', VStr ''failed''), (''error'', VStr error_msg)]],
      errors = errors sg @ [VStr error_msg]\<rparr>"

definition step_moved :: "val \<Rightarrow> string \<Rightarrow> val \<Rightarrow> val list \<Rightarrow> saga \<Rightarrow> saga" where
  "step_moved n action distance_mm position sg =
     sg\<lparr>steps := steps sg @ [VDict [(''step'', n), (''action'', VStr action),
                                    (''distance_mm'', distance_mm),
                                    (''position'', VList position),
                                    (''status'', VStr ''success'')]]\<rparr>"

definition pose_move :: "val \<Rightarrow> val list \<Rightarrow> call" where
  "pose_move rh target = robot_move rh 1 (VList [VList target, VStr ''P'', VStr ''@E'']) (VStr '''')"

definition hand_move :: "val \<Rightarrow> rat \<Rightarrow> val \<Rightarrow> call" where
  "hand_move ch mm speed = controller_execute ch ''HandMoveA'' (VList [VNum mm, speed])"

text \<open>
  Steps 1, 3 and 9: the three gripper blocks, which differ in the step number (also written
  out in the error text), the action name and the opening.
\<close>

definition gripper_step ::
  "env \<Rightarrow> val \<Rightarrow> int \<Rightarrow> string \<Rightarrow> string \<Rightarrow> rat \<Rightarrow> val \<Rightarrow> saga \<Rightarrow> world
     \<Rightarrow> saga \<times> world" where
  "gripper_step E ch n digit action mm gripper_speed sg w =
     (case client_call E (hand_move ch mm gripper_speed) w of
        (Returns u, w1) \<Rightarrow>
          (sg\<lparr>steps := steps sg @ [VDict [(''step'', VInt n), (''action'', VStr action),
                                          (''gripper_distance_mm'', VNum mm),
                                          (''speed'', gripper_speed),
                                          (''status'', VStr ''success'')]]\<rparr>, w1)
      | (Raises e, w1) \<Rightarrow>
          (step_failed (VInt n) action
             (''Step '' @ digit @ '' failed (may be simulator limitation): '' @ exc_str e)
             sg, w1))"

type_synonym pose6 = "val \<times> val \<times> val \<times> val \<times> val \<times> val"

text \<open>Step 2. \<^verbatim>\<open>pick_z\<close> is assigned after \<^verbatim>\<open>TakeArm\<close>: \<open>None\<close> is the unbound local.\<close>

fun move_down_to_pick ::
  "env \<Rightarrow> val \<Rightarrow> pose6 \<Rightarrow> val \<Rightarrow> saga \<Rightarrow> world \<Rightarrow> val option \<times> saga \<times> world" where
  "move_down_to_pick E rh (x, y, z, rx, ry, rz) pick_down_mm sg w =
     (case client_call E (take_arm rh) w of
        (Raises e, w1) \<Rightarrow>
          (None, step_failed (VInt 2) ''move_down_to_pick'' (''Step 2 failed: '' @ exc_str e) sg, w1)
      | (Returns u, w1) \<Rightarrow>
          (case py_sub z pick_down_mm of
             Inl e \<Rightarrow>
               (None, step_failed (VInt 2) ''move_down_to_pick'' (''Step 2 failed: '' @ exc_str e) sg, w1)
           | Inr pick_z \<Rightarrow>
               (case client_call E (pose_move rh [x, y, pick_z, rx, ry, rz]) w1 of
                  (Raises e, w2) \<Rightarrow>
                    (Some pick_z,
                     step_failed (VInt 2) ''move_down_to_pick'' (''Step 2 failed: '' @ exc_str e) sg, w2)
                | (Returns u', w2) \<Rightarrow>
                    (Some pick_z,
                     step_moved (VInt 2) ''move_down_to_pick'' pick_down_mm [x, y, pick_z, rx, ry, rz] sg,
                     w2))))"

text \<open>Steps 4 to 6: \<^verbatim>\<open>for i in range(3)\<close>, with \<^verbatim>\<open>current_z\<close> carried along.\<close>

fun lift_up ::
  "env \<Rightarrow> val \<Rightarrow> pose6 \<Rightarrow> val \<Rightarrow> nat list \<Rightarrow> val \<Rightarrow> saga \<Rightarrow> world \<Rightarrow> val \<times> saga \<times> world" where
  "lift_up E rh P step_up_mm [] current_z sg w = (current_z, sg, w)"
| "lift_up E rh (x, y, z, rx, ry, rz) step_up_mm (i # rest) current_z sg w =
     (let n = VInt (4 + int i);
          action = ''lift_up_'' @ py_str E (VInt (int i + 1));
          failed = (\<lambda>e. step_failed n action (''Step '' @ py_str E n @ '' failed: '' @ exc_str e) sg)
      in case client_call E (take_arm rh) w of
           (Raises e, w1) \<Rightarrow>
             lift_up E rh (x, y, z, rx, ry, rz) step_up_mm rest current_z (failed e) w1
         | (Returns u, w1) \<Rightarrow>
             (case py_add current_z step_up_mm of
                Inl e \<Rightarrow> lift_up E rh (x, y, z, rx, ry, rz) step_up_mm rest current_z (failed e) w1
              | Inr cz \<Rightarrow>
                  (case client_call E (pose_move rh [x, y, cz, rx, ry, rz]) w1 of
                     (Raises e, w2) \<Rightarrow>
                       lift_up E rh (x, y, z, rx, ry, rz) step_up_mm rest cz (failed e) w2
                   | (Returns u', w2) \<Rightarrow>
                       lift_up E rh (x, y, z, rx, ry, rz) step_up_mm rest cz
                         (step_moved n action step_up_mm [x, y, cz, rx, ry, rz] sg) w2)))"

text \<open>Step 7. \<^verbatim>\<open>place_y\<close> is assigned after \<^verbatim>\<open>TakeArm\<close> as well.\<close>

fun move_y_to_place ::
  "env \<Rightarrow> val \<Rightarrow> pose6 \<Rightarrow> val \<Rightarrow> val \<Rightarrow> saga \<Rightarrow> world \<Rightarrow> val option \<times> saga \<times> world" where
  "move_y_to_place E rh (x, y, z, rx, ry, rz) place_y_mm current_z sg w =
     (case client_call E (take_arm rh) w of
        (Raises e, w1) \<Rightarrow>
          (None, step_failed (VInt 7) ''move_y_to_place'' (''Step 7 failed: '' @ exc_str e) sg, w1)
      | (Returns u, w1) \<Rightarrow>
          (case py_add y place_y_mm of
             Inl e \<Rightarrow>
               (None, step_failed (VInt 7) ''move_y_to_place'' (''Step 7 failed: '' @ exc_str e) sg, w1)
           | Inr place_y \<Rightarrow>
               (case client_call E (pose_move rh [x, place_y, current_z, rx, ry, rz]) w1 of
                  (Raises e, w2) \<Rightarrow>
                    (Some place_y,
                     step_failed (VInt 7) ''move_y_to_place'' (''Step 7 failed: '' @ exc_str e) sg, w2)
                | (Returns u', w2) \<Rightarrow>
                    (Some place_y,
                     step_moved (VInt 7) ''move_y_to_place'' place_y_mm
                       [x, place_y, current_z, rx, ry, rz] sg,
                     w2))))"

text \<open>Step 8 reads \<^verbatim>\<open>place_y\<close> inside its own \<^verbatim>\<open>try\<close>.\<close>

fun move_down_to_place ::
  "env \<Rightarrow> val \<Rightarrow> pose6 \<Rightarrow> val \<Rightarrow> val \<Rightarrow> val option \<Rightarrow> saga \<Rightarrow> world \<Rightarrow> saga \<times> world" where
  "move_down_to_place E rh (x, y, z, rx, ry, rz) place_down_mm current_z place_y sg w =
     (let failed = (\<lambda>e. step_failed (VInt 8) ''move_down_to_place''
                           (''Step 8 failed: '' @ exc_str e) sg)
      in case client_call E (take_arm rh) w of
           (Raises e, w1) \<Rightarrow> (failed e, w1)
         | (Returns u, w1) \<Rightarrow>
             (case py_sub current_z place_down_mm of
                Inl e \<Rightarrow> (failed e, w1)
              | Inr place_z \<Rightarrow>
                  (case place_y of
                     None \<Rightarrow>
                       (failed (UnboundLocalError ''cannot access local variable place_y''), w1)
                   | Some py \<Rightarrow>
                       (case client_call E (pose_move rh [x, py, place_z, rx, ry, rz]) w1 of
                          (Raises e, w2) \<Rightarrow> (failed e, w2)
                        | (Returns u', w2) \<Rightarrow>
                            (step_moved (VInt 8) ''move_down_to_place'' place_down_mm
                               [x, py, place_z, rx, ry, rz] sg, w2)))))"

fun return_to_initial_position ::
  "env \<Rightarrow> val \<Rightarrow> pose6 \<Rightarrow> saga \<Rightarrow> world \<Rightarrow> saga \<times> world" where
  "return_to_initial_position E rh (x, y, z, rx, ry, rz) sg w =
     (let failed = (\<lambda>e. step_failed (VInt 10) ''return_to_initial_position''
                           (''Step 10 failed: '' @ exc_str e) sg)
      in case client_call E (take_arm rh) w of
           (Raises e, w1) \<Rightarrow> (failed e, w1)
         | (Returns u, w1) \<Rightarrow>
             (case client_call E (pose_move rh [x, y, z, rx, ry, rz]) w1 of
                (Raises e, w2) \<Rightarrow> (failed e, w2)
              | (Returns u', w2) \<Rightarrow>
                  (sg\<lparr>steps := steps sg @ [VDict [(''step'', VInt 10),
                                                  (''action'', VStr ''return_to_initial_position''),
                                                  (''position'', VList [x, y, z, rx, ry, rz]),
                                                  (''status'', VStr ''success'')]]\<rparr>, w2)))"

record distances =
  pick_down_mm :: val
  lift_up_mm :: val
  place_y_mm :: val
  place_down_mm :: val

text \<open>
  Steps 1 to 10 and the final pose, once the initial pose is known. \<open>Inl e\<close> is an
  exception that reaches the outer \<^verbatim>\<open>except\<close>; the saga lists are returned as they
  stand.
\<close>

definition saga_steps ::
  "env \<Rightarrow> val \<Rightarrow> val \<Rightarrow> distances \<Rightarrow> val \<Rightarrow> pose6 \<Rightarrow> saga \<Rightarrow> world
     \<Rightarrow> (error + val) \<times> saga \<times> world" where
  "saga_steps E ch rh D gripper_speed P sg0 w0 =
     (let (sg1, w1) = gripper_step E ch 1 ''1'' ''open_gripper'' 30 gripper_speed sg0 w0;
          (pick_z, sg2, w2) = move_down_to_pick E rh P (pick_down_mm D) sg1 w1;
          (sg3, w3) = gripper_step E ch 3 ''3'' ''close_gripper'' 21 gripper_speed sg2 w2
      in case py_truediv (lift_up_mm D) (VInt 3) of
           Inl e \<Rightarrow> (Inl e, sg3, w3)
         | Inr step_up_mm \<Rightarrow>
        (case pick_z of
           None \<Rightarrow> (Inl (UnboundLocalError ''cannot access local variable pick_z''), sg3, w3)
         | Some pz \<Rightarrow>
             (let (current_z, sg6, w6) = lift_up E rh P step_up_mm [0, 1, 2] pz sg3 w3;
                  (place_y, sg7, w7) = move_y_to_place E rh P (place_y_mm D) current_z sg6 w6;
                  (sg8, w8) = move_down_to_place E rh P (place_down_mm D) current_z place_y sg7 w7;
                  (sg9, w9) = gripper_step E ch 9 ''9'' ''open_gripper'' 30 gripper_speed sg8 w8;
                  (sg10, w10) = return_to_initial_position E rh P sg9 w9
              in case read_variable E rh ''@CURRENT_POSITION'' w10 of
                   (ReadFailed got e, w11) \<Rightarrow> (Inl e, sg10, w11)
                 | (Read final_pose, w11) \<Rightarrow> (Inr final_pose, sg10, w11))))"

text \<open>The outer \<^verbatim>\<open>try\<close>: step 0, then the steps above, then the result dictionary.\<close>

definition saga_try ::
  "env \<Rightarrow> val \<Rightarrow> val \<Rightarrow> distances \<Rightarrow> dict \<Rightarrow> val \<Rightarrow> world \<Rightarrow> (error + val) \<times> saga \<times> world" where
  "saga_try E ch rh D parameters gripper_speed w =
     (let sg = \<lparr>steps = [], errors = []\<rparr>
      in case read_variable E rh ''@CURRENT_POSITION'' w of
           (ReadFailed got e, w1) \<Rightarrow> (Inl e, sg, w1)
         | (Read initial_pose, w1) \<Rightarrow>
        (case index_all E initial_pose [0, 1, 2, 3, 4, 5] of
           Inl e \<Rightarrow> (Inl e, sg, w1)
         | Inr c \<Rightarrow>
        (let P = (c ! 0, c ! 1, c ! 2, c ! 3, c ! 4, c ! 5);
             sg0 = sg\<lparr>steps := steps sg @ [VDict [(''step'', VInt 0),
                                                   (''action'', VStr ''get_initial_position''),
                                                   (''position'', VList c),
                                                   (''status'', VStr ''success'')]]\<rparr>
         in case saga_steps E ch rh D gripper_speed P sg0 w1 of
              (Inl e, sg10, w11) \<Rightarrow> (Inl e, sg10, w11)
            | (Inr final_pose, sg10, w11) \<Rightarrow>
           (case py_slice6 initial_pose of
              Inl e \<Rightarrow> (Inl e, sg10, w11)
            | Inr initial_position \<Rightarrow>
           (case py_slice6 final_pose of
              Inl e \<Rightarrow> (Inl e, sg10, w11)
            | Inr final_position \<Rightarrow>
               (Inr (VDict
                  [(''success'', VBool (length (errors sg10) = 0)),
                   (''message'', VStr (''Pick-and-place operation completed: ''
                       @ py_str E (VInt (int (length (steps sg10))))
                       @ '' steps (including initial position record), ''
                       @ py_str E (VInt (int (length (errors sg10)))) @ '' errors'')),
                   (''initial_position'', initial_position),
                   (''final_position'', final_position),
                   (''parameters'', VDict parameters),
                   (''steps'', VList (steps sg10)),
                   (''errors'', if errors sg10 \<noteq> [] then VList (errors sg10) else VNone),
                   (''warning'', VStr ''Robot has completed pick-and-place operation, please check final position'')]),
                sg10, w11))))))"

definition handle_robot_pick_and_place :: "env \<Rightarrow> dict \<Rightarrow> world \<Rightarrow> outcome \<times> world" where
  "handle_robot_pick_and_place E args w =
     (if \<not> truthy (controller_handle (state w))
      then (Inl (Exception ''Please call bcap_controller_connect first''), w)
      else if \<not> truthy (robot_handle (state w))
      then (Inl (Exception ''Please call bcap_robot_connect first''), w)
      else
        (let pick_down_distance = dict_get args ''pick_down_distance'' (VNum 4);
             lift_up_distance = dict_get args ''lift_up_distance'' (VNum 9);
             place_y_offset = dict_get args ''place_y_offset'' (VNum (5 / 2));
             place_down_distance = dict_get args ''place_down_distance'' (VNum 3);
             gripper_speed = dict_get args ''gripper_speed'' (VInt 100)
         in case py_mul pick_down_distance (VInt 10) of Inl e \<Rightarrow> (Inl e, w) | Inr pd \<Rightarrow>
           (case py_mul lift_up_distance (VInt 10) of Inl e \<Rightarrow> (Inl e, w) | Inr lu \<Rightarrow>
           (case py_mul place_y_offset (VInt 10) of Inl e \<Rightarrow> (Inl e, w) | Inr po \<Rightarrow>
           (case py_mul place_down_distance (VInt 10) of Inl e \<Rightarrow> (Inl e, w) | Inr pl \<Rightarrow>
              (let D = \<lparr>pick_down_mm = pd, lift_up_mm = lu, place_y_mm = po, place_down_mm = pl\<rparr>;
                   parameters =
                     [(''pick_down_distance_cm'', pick_down_distance),
                      (''lift_up_distance_cm'', lift_up_distance),
                      (''place_y_offset_cm'', place_y_offset),
                      (''place_down_distance_cm'', place_down_distance),
                      (''gripper_speed'', gripper_speed)];
                   (r, sg, w1) = saga_try E (controller_handle (state w)) (robot_handle (state w))
                                   D parameters gripper_speed w;
                   result = (case r of
                       Inr res \<Rightarrow> res
                     | Inl e \<Rightarrow> VDict
                         [(''success'', VBool False),
                          (''message'', VStr (''Pick-and-place operation failed: '' @ exc_str e)),
                          (''error'', VStr (exc_str e)),
                          (''steps'', VList (steps sg)),
                          (''errors'', VList (errors sg))])
               in (Inr result, log_operation E ''bcap_robot_pick_and_place'' args result VNone w1)))))))"

section \<open>Single moves\<close>

text \<open>
  \<^verbatim>\<open>handle_robot_move_to_joint_angles\<close> builds a client of its own from the stored
  connection data (or the defaults) and never looks at the session's handles; its calls go
  to that new client, hence \<open>invoke\<close>. The parsing of \<^verbatim>\<open>Speed=\<close> out of the option string
  is \<open>speed_in_option\<close> of the environment.
\<close>

definition joint_move_try :: "env \<Rightarrow> val \<Rightarrow> val \<Rightarrow> world \<Rightarrow> outcome \<times> world" where
  "joint_move_try E joint_angles option w =
     (case invoke E (controller_connect (VStr '''') (VStr ''CaoProv.DENSO.VRC'')
                       (VStr ''localhost'') (VStr '''')) w of
        (Raises e, w1) \<Rightarrow> (Inl e, w1)
      | (Returns controller_h, w1) \<Rightarrow>
     (case invoke E (controller_getrobot controller_h (VStr ''Arm'') (VStr '''')) w1 of
        (Raises e, w2) \<Rightarrow> (Inl e, w2)
      | (Returns robot_h, w2) \<Rightarrow>
     (case read_variable_on (invoke E) robot_h ''@CURRENT_ANGLE'' w2 of
        (ReadFailed got e, w3) \<Rightarrow> (Inl e, w3)
      | (Read current_angles, w3) \<Rightarrow>
     (case (if truthy option then speed_in_option E option else Inr VNone) of
        Inl e \<Rightarrow> (Inl e, w3)
      | Inr speed_value \<Rightarrow>
     (case invoke E (take_arm robot_h) w3 of
        (Raises e, w4) \<Rightarrow> (Inl e, w4)
      | (Returns u4, w4) \<Rightarrow>
     (let w5 = (if speed_value \<noteq> VNone
                then snd (invoke E (robot_speed robot_h (VInt 0) speed_value) w4) else w4)
      in case invoke E (robot_move robot_h 1 (VList [joint_angles, VStr ''J'', VStr ''@E''])
                          (VStr '''')) w5 of
        (Raises e, w6) \<Rightarrow> (Inl e, w6)
      | (Returns u6, w6) \<Rightarrow>
     (case invoke E (robot_release robot_h) w6 of
        (Raises e, w7) \<Rightarrow> (Inl e, w7)
      | (Returns u7, w7) \<Rightarrow>
     (case invoke E (controller_disconnect controller_h) w7 of
        (Raises e, w8) \<Rightarrow> (Inl e, w8)
      | (Returns u8, w8) \<Rightarrow>
          (Inr (VDict
             [(''success'', VBool True),
              (''previous_joint_angles'', current_angles),
              (''target_joint_angles'', joint_angles),
              (''message'', VStr ''Robot motion command sent (following read_joint_angles.py single connection pattern)'')]),
           w8)))))))))"

definition handle_robot_move_to_joint_angles :: "env \<Rightarrow> dict \<Rightarrow> world \<Rightarrow> outcome \<times> world" where
  "handle_robot_move_to_joint_angles E args w =
     (let host = dict_get (connection_info (state w)) ''host'' (VStr ''192.168.0.1'');
          port = dict_get (connection_info (state w)) ''port'' (VInt 5007);
          timeout = dict_get (connection_info (state w)) ''timeout'' (VNum 3)
      in case dict_item args ''joint_angles'' of
           Inl e \<Rightarrow> (Inl e, w)
         | Inr joint_angles \<Rightarrow>
             (let option = dict_get args ''option'' (VStr '''')
              in case invoke E (BCAPClient host port timeout) w of
                   (Raises e, w1) \<Rightarrow> (Inl e, w1)
                 | (Returns u, w1) \<Rightarrow>
                     (case joint_move_try E joint_angles option w1 of
                        (Inr result, w2) \<Rightarrow> (Inr result, w2)
                      | (Inl e, w2) \<Rightarrow>
                          (Inr (VDict [(''success'', VBool False), (''error'', VStr (exc_str e))]),
                           w2))))"

definition handle_robot_move_to_pose :: "env \<Rightarrow> dict \<Rightarrow> world \<Rightarrow> outcome \<times> world" where
  "handle_robot_move_to_pose E args w =
     (if \<not> truthy (robot_handle (state w))
      then (Inl (Exception ''Please call bcap_robot_connect first''), w)
      else case dict_item args ''pose'' of
        Inl e \<Rightarrow> (Inl e, w)
      | Inr pose \<Rightarrow>
         (let option = dict_get args ''option'' (VStr '''');
              rh = robot_handle (state w)
          in case py_len pose of
               None \<Rightarrow> (Inl (TypeError ''object has no len()''), w)
             | Some n \<Rightarrow>
                 if n \<noteq> 6
                 then (Inl (ValueError ''Position and orientation must be 6 values [x(mm), y(mm), z(mm), rx(deg), ry(deg), rz(deg)]''), w)
                 else
            (case read_variable E rh ''@CURRENT_POSITION'' w of
               (ReadFailed got e, w1) \<Rightarrow> (Inl e, w1)
             | (Read current_pose, w1) \<Rightarrow>
            (case client_call E (take_arm rh) w1 of
               (Raises e, w2) \<Rightarrow> (Inl e, w2)
             | (Returns u, w2) \<Rightarrow>
            (let move_option = (if truthy option then option else VStr '''')
             in case client_call E (robot_move rh 1 (VList [pose, VStr ''P'', VStr ''@E''])
                                      move_option) w2 of
                  (Raises e, w3) \<Rightarrow> (Inl e, w3)
                | (Returns u', w3) \<Rightarrow>
                    (let result = VDict
                           [(''success'', VBool True),
                            (''message'', VStr ''Robot motion command sent''),
                            (''target_pose'', pose),
                            (''previous_pose'', current_pose),
                            (''warning'', VStr ''Robot is moving, please wait for motion to complete and ensure safety'')]
                     in (Inr result,
                         log_operation E ''bcap_robot_move_to_pose'' args result VNone w3)))))))"

section \<open>The remaining primitives\<close>

text \<open>
  A primitive of the shape: check a handle, issue one client call, build the result, log it.
\<close>

definition simple_primitive ::
  "env \<Rightarrow> string \<Rightarrow> dict \<Rightarrow> bool \<Rightarrow> string \<Rightarrow> call \<Rightarrow> (val \<Rightarrow> val) \<Rightarrow> world \<Rightarrow> outcome \<times> world" where
  "simple_primitive E name args ready hint c result_of w =
     (if \<not> ready then (Inl (Exception hint), w)
      else case client_call E c w of
             (Raises e, w1) \<Rightarrow> (Inl e, w1)
           | (Returns v, w1) \<Rightarrow>
               (Inr (result_of v), log_operation E name args (result_of v) VNone w1))"

definition handle_controller_get_robot_names :: "env \<Rightarrow> dict \<Rightarrow> world \<Rightarrow> outcome \<times> world" where
  "handle_controller_get_robot_names E args w =
     simple_primitive E ''bcap_controller_get_robot_names'' args
       (truthy (controller_handle (state w))) ''Please call bcap_controller_connect first''
       (controller_getrobotnames (controller_handle (state w)) (dict_get args ''option'' (VStr '''')))
       (\<lambda>robot_names. VDict [(''success'', VBool True), (''robot_names'', robot_names)]) w"

definition handle_controller_get_variable_names :: "env \<Rightarrow> dict \<Rightarrow> world \<Rightarrow> outcome \<times> world" where
  "handle_controller_get_variable_names E args w =
     simple_primitive E ''bcap_controller_get_variable_names'' args
       (truthy (controller_handle (state w))) ''Please call bcap_controller_connect first''
       (controller_getvariablenames (controller_handle (state w)) (dict_get args ''option'' (VStr '''')))
       (\<lambda>variable_names. VDict [(''success'', VBool True), (''variable_names'', variable_names)]) w"

definition handle_controller_clear_error :: "env \<Rightarrow> dict \<Rightarrow> world \<Rightarrow> outcome \<times> world" where
  "handle_controller_clear_error E args w =
     simple_primitive E ''bcap_controller_clear_error'' args
       (truthy (controller_handle (state w))) ''Please call bcap_controller_connect first''
       (controller_execute (controller_handle (state w)) ''ClearError'' VNone)
       (\<lambda>result_value. VDict
          [(''success'', VBool True),
           (''message'', VStr ''Clear error command executed''),
           (''result'', result_value),
           (''note'', VStr ''If error still exists, may need to check hardware or restart controller'')]) w"

definition handle_robot_get_variable_names :: "env \<Rightarrow> dict \<Rightarrow> world \<Rightarrow> outcome \<times> world" where
  "handle_robot_get_variable_names E args w =
     simple_primitive E ''bcap_robot_get_variable_names'' args
       (truthy (robot_handle (state w))) ''Please call bcap_robot_connect first''
       (robot_getvariablenames (robot_handle (state w)) (dict_get args ''option'' (VStr '''')))
       (\<lambda>variable_names. VDict [(''success'', VBool True), (''variable_names'', variable_names)]) w"

definition handle_robot_set_speed :: "env \<Rightarrow> dict \<Rightarrow> world \<Rightarrow> outcome \<times> world" where
  "handle_robot_set_speed E args w =
     (let axis = dict_get args ''axis'' (VInt 0);
          speed = dict_get args ''speed'' (VNum 50)
      in simple_primitive E ''bcap_robot_set_speed'' args
           (truthy (robot_handle (state w))) ''Please call bcap_robot_connect first''
           (robot_speed (robot_handle (state w)) axis speed)
           (\<lambda>u. VDict
              [(''success'', VBool True),
               (''message'', VStr ''Speed set successfully''),
               (''axis'', axis),
               (''speed'', speed),
               (''note'', VStr ''Speed setting will affect subsequent motion commands'')]) w)"

definition handle_robot_get_variable :: "env \<Rightarrow> dict \<Rightarrow> world \<Rightarrow> outcome \<times> world" where
  "handle_robot_get_variable E args w =
     (if \<not> truthy (robot_handle (state w))
      then (Inl (Exception ''Please call bcap_robot_connect first''), w)
      else case dict_item args ''name'' of
        Inl e \<Rightarrow> (Inl e, w)
      | Inr name \<Rightarrow>
         (case read_variable_opt (client_call E) (robot_handle (state w)) name
                 (dict_get args ''option'' (VStr '''')) w of
            (ReadFailed got e, w1) \<Rightarrow> (Inl e, w1)
          | (Read v, w1) \<Rightarrow>
              (let result = VDict [(''success'', VBool True), (''variable_name'', name),
                                   (''value'', v)]
               in (Inr result, log_operation E ''bcap_robot_get_variable'' args result VNone w1))))"

definition handle_robot_gohome :: "env \<Rightarrow> dict \<Rightarrow> world \<Rightarrow> outcome \<times> world" where
  "handle_robot_gohome E args w =
     (if \<not> truthy (robot_handle (state w))
      then (Inl (Exception ''Please call bcap_robot_connect first''), w)
      else
        (let rh = robot_handle (state w)
         in case read_variable E rh ''@CURRENT_ANGLE'' w of
              (ReadFailed got e, w1) \<Rightarrow> (Inl e, w1)
            | (Read current_angles, w1) \<Rightarrow>
                (let (given, w2) = client_call E (give_arm rh) w1
                 in case client_call E (take_arm rh) w2 of
                      (Raises e, w3) \<Rightarrow> (Inl e, w3)
                    | (Returns u, w3) \<Rightarrow>
                        (case client_call E (robot_gohome rh) w3 of
                           (Raises e, w4) \<Rightarrow> (Inl e, w4)
                         | (Returns u', w4) \<Rightarrow>
                             (let result = VDict
                                    [(''success'', VBool True),
                                     (''message'', VStr ''Robot go home command sent''),
                                     (''previous_joint_angles'', current_angles),
                                     (''warning'', VStr ''Robot is moving to home position, please wait for motion to complete'')]
                              in (Inr result,
                                  log_operation E ''bcap_robot_gohome'' args result VNone w4))))))"

text \<open>
  The two gripper handlers differ in their defaults, names and texts. \<open>fmt_1f\<close> of the
  environment is the format \<^verbatim>\<open>:.1f\<close>.
\<close>

definition gripper_handler ::
  "env \<Rightarrow> string \<Rightarrow> string \<Rightarrow> string \<Rightarrow> string \<Rightarrow> val \<Rightarrow> val \<Rightarrow> dict \<Rightarrow> world
     \<Rightarrow> outcome \<times> world" where
  "gripper_handler E name verb action phrase dist_default speed_default args w =
     (if \<not> truthy (controller_handle (state w))
      then (Inl (Exception ''Please call bcap_controller_connect first''), w)
      else
        (let dist = dict_get args ''dist'' dist_default;
             speed = dict_get args ''speed'' speed_default
         in case num_of dist of
              None \<Rightarrow> (Inl (TypeError ''comparison not supported''), w)
            | Some d \<Rightarrow>
                if \<not> (0 \<le> d \<and> d \<le> 3 / 100)
                then (Inl (ValueError ''Distance must be between 0 and 0.03 meters''), w)
                else
                  (case py_mul dist (VInt 1000) of
                     Inl e \<Rightarrow> (Inl e, w)
                   | Inr mm \<Rightarrow>
                       (case client_call E (controller_execute (controller_handle (state w))
                                              ''HandMoveA'' (VList [mm, speed])) w of
                          (Raises e, w1) \<Rightarrow> (Inl e, w1)
                        | (Returns u, w1) \<Rightarrow>
                            (let result = VDict
                                   [(''success'', VBool True),
                                    (''message'', VStr (''Gripper '' @ verb @ '' to '' @ fmt_1f E mm @ ''mm'')),
                                    (''action'', VStr action),
                                    (''distance_mm'', mm),
                                    (''speed'', speed),
                                    (''note'', VStr (''Use HandMoveA command to '' @ phrase
                                        @ '' (fully following cobotta_x_RIKEN.py)''))]
                             in (Inr result, log_operation E name args result VNone w1))))))"

definition handle_robot_open_gripper :: "env \<Rightarrow> dict \<Rightarrow> world \<Rightarrow> outcome \<times> world" where
  "handle_robot_open_gripper E args w =
     gripper_handler E ''bcap_robot_open_gripper'' ''opened'' ''open_gripper'' ''open gripper''
       (VNum (3 / 100)) (VInt 100) args w"

definition handle_robot_close_gripper :: "env \<Rightarrow> dict \<Rightarrow> world \<Rightarrow> outcome \<times> world" where
  "handle_robot_close_gripper E args w =
     gripper_handler E ''bcap_robot_close_gripper'' ''closed'' ''close_gripper'' ''close gripper''
       (VNum 0) (VInt 20) args w"

section \<open>The dispatcher\<close>

text \<open>
  \<^verbatim>\<open>get_error_description\<close>: a dictionary literal keyed by the constants of
  \<^verbatim>\<open>orinexception.HResult\<close>, which the environment supplies; in a literal a later equal
  key replaces an earlier one.
\<close>

definition get_error_description :: "env \<Rightarrow> int \<Rightarrow> string" where
  "get_error_description E hresult =
     (case map_of (rev
        [(E_TIMEOUT (hresults E), ''Connection timeout''),
         (E_NOT_CONNECTED (hresults E), ''Not connected''),
         (E_ACCESSDENIED (hresults E), ''Access denied''),
         (E_INVALIDARG (hresults E), ''Invalid parameter''),
         (E_CAO_OBJECT_NOTFOUND (hresults E), ''Object not found''),
         (E_CAO_VARIANT_TYPE_NOSUPPORT (hresults E), ''Unsupported variable type''),
         (E_FAIL (hresults E), ''Operation failed'')]) hresult of
        Some d \<Rightarrow> d
      | None \<Rightarrow> ''Unknown error ('' @ py_str E (VInt hresult) @ '')'')"

definition dispatch :: "env \<Rightarrow> string \<Rightarrow> dict \<Rightarrow> world \<Rightarrow> outcome \<times> world" where
  "dispatch E name arguments w =
     (if name = ''bcap_connect'' then handle_connect E arguments w
      else if name = ''bcap_disconnect'' then handle_disconnect E arguments w
      else if name = ''bcap_get_connection_status'' then handle_get_connection_status E arguments w
      else if name = ''bcap_controller_connect'' then handle_controller_connect E arguments w
      else if name = ''bcap_controller_get_robot_names''
        then handle_controller_get_robot_names E arguments w
      else if name = ''bcap_controller_get_variable_names''
        then handle_controller_get_variable_names E arguments w
      else if name = ''bcap_controller_clear_error'' then handle_controller_clear_error E arguments w
      else if name = ''bcap_robot_connect'' then handle_robot_connect E arguments w
      else if name = ''bcap_robot_get_variable'' then handle_robot_get_variable E arguments w
      else if name = ''bcap_robot_get_variable_names''
        then handle_robot_get_variable_names E arguments w
      else if name = ''bcap_robot_move_to_joint_angles''
        then handle_robot_move_to_joint_angles E arguments w
      else if name = ''bcap_robot_move_to_pose'' then handle_robot_move_to_pose E arguments w
      else if name = ''bcap_robot_gohome'' then handle_robot_gohome E arguments w
      else if name = ''bcap_robot_set_speed'' then handle_robot_set_speed E arguments w
      else if name = ''bcap_robot_execute_trajectory''
        then handle_robot_execute_trajectory E arguments w
      else if name = ''bcap_robot_execute_slave_trajectory''
        then handle_robot_execute_slave_trajectory E arguments w
      else if name = ''bcap_robot_open_gripper'' then handle_robot_open_gripper E arguments w
      else if name = ''bcap_robot_close_gripper'' then handle_robot_close_gripper E arguments w
      else if name = ''bcap_robot_pick_and_place'' then handle_robot_pick_and_place E arguments w
      else if name = ''bcap_get_operation_log'' then handle_get_operation_log E arguments w
      else (Inl (ValueError (''Unknown tool: '' @ name)), w))"

text \<open>
  \<^verbatim>\<open>call_tool\<close>: the result dictionary sent back. An exception that escaped the handler is
  logged here and turned into the failure envelope.
\<close>

definition call_tool :: "env \<Rightarrow> string \<Rightarrow> dict \<Rightarrow> world \<Rightarrow> val \<times> world" where
  "call_tool E name arguments w =
     (case dispatch E name arguments w of
        (Inr result, w1) \<Rightarrow> (result, w1)
      | (Inl (ORiNException hresult m), w1) \<Rightarrow>
          (let error_msg = ''ORiN error (HResult='' @ py_str E (VInt hresult) @ ''): ''
                             @ get_error_description E hresult
           in (VDict [(''success'', VBool False), (''error'', VStr error_msg),
                      (''hresult'', VInt hresult)],
               log_operation E name arguments VNone (VStr error_msg) w1))
      | (Inl e, w1) \<Rightarrow>
          (let error_msg = ''Error: '' @ exc_str e
           in (VDict [(''success'', VBool False), (''error'', VStr error_msg)],
               log_operation E name arguments VNone (VStr error_msg) w1)))"

section \<open>Invariants and reachable worlds\<close>

text \<open>The three handles of the session, which only the connection handlers may change.\<close>

definition session_handles :: "world \<Rightarrow> client_obj option \<times> val \<times> val" where
  "session_handles w = (client (state w), controller_handle (state w), robot_handle (state w))"

text \<open>The prefix chain: robot connected implies controller connected implies network connected.\<close>

definition prefix_chain :: "ServerState \<Rightarrow> bool" where
  "prefix_chain s \<longleftrightarrow>
     (robot_handle s \<noteq> VNone \<longrightarrow> controller_handle s \<noteq> VNone) \<and>
     (controller_handle s \<noteq> VNone \<longrightarrow> client s \<noteq> None)"

text \<open>
  The worlds the process can be in: it starts with the fresh state, and every request to
  \<^verbatim>\<open>call_tool\<close>, with any name and arguments, and every \<^verbatim>\<open>reset\<close> leads to the next.
\<close>

inductive reachable :: "env \<Rightarrow> world \<Rightarrow> bool" for E :: env where
  start: "reachable E init_world"
| tool: "reachable E w \<Longrightarrow> reachable E (snd (call_tool E name arguments w))"
| reset: "reachable E w \<Longrightarrow> reachable E (snd (reset E w))"

text \<open>
  The client's \<^verbatim>\<open>controller_connect\<close> returns a handle when it returns: never
  \<^verbatim>\<open>None\<close>.
\<close>

definition returns_handles :: "env \<Rightarrow> bool" where
  "returns_handles E \<longleftrightarrow>
     (\<forall>h name provider machine option.
        bcap E h (controller_connect name provider machine option) \<noteq> Returns VNone)"

text \<open>Reading a field of a result dictionary.\<close>

fun result_field :: "val \<Rightarrow> string \<Rightarrow> val" where
  "result_field (VDict d) k = dict_get d k VNone"
| "result_field v k = VNone"

text \<open>The moves among the calls issued.\<close>

fun is_robot_move :: "call \<Rightarrow> bool" where
  "is_robot_move (robot_move rh mode target option) = True"
| "is_robot_move c = False"

section \<open>Concrete environments and sessions\<close>

text \<open>A client on which every call succeeds.\<close>

definition env_of :: "(call list \<Rightarrow> call \<Rightarrow> reply) \<Rightarrow> env" where
  "env_of client_model =
     \<lparr>bcap = client_model, now_iso = (\<lambda>n. ''t''), py_str = (\<lambda>v. ''v''), fmt_1f = (\<lambda>v. ''f''),
      speed_in_option = (\<lambda>v. Inr VNone),
      hresults = \<lparr>E_TIMEOUT = 1, E_NOT_CONNECTED = 2, E_ACCESSDENIED = 3, E_INVALIDARG = 4,
                   E_CAO_OBJECT_NOTFOUND = 5, E_CAO_VARIANT_TYPE_NOSUPPORT = 6, E_FAIL = 7\<rparr>\<rparr>"

definition env_ok :: env where
  "env_ok = env_of (\<lambda>h c. Returns (VInt 1))"


text \<open>A session after connect, controller-connect and robot-connect, with an empty log.\<close>

definition connected_world :: world where
  "connected_world =
     \<lparr>state = \<lparr>client = Some (ClientObj (VStr ''192.168.0.1'') (VInt 5007) (VNum 3)),
                controller_handle = VInt 1, robot_handle = VInt 2,
                connection_info = [(''host'', VStr ''192.168.0.1''), (''port'', VInt 5007),
                                   (''timeout'', VNum 3), (''connected_at'', VStr ''t'')],
                operation_log = []\<rparr>,
      calls = [], clock = 0\<rparr>"

text \<open>The same three steps taken through the dispatcher, from the fresh process.\<close>

definition session3 :: world where
  "session3 =
     snd (call_tool env_ok ''bcap_robot_connect'' []
       (snd (call_tool env_ok ''bcap_controller_connect'' []
         (snd (call_tool env_ok ''bcap_connect'' [(''host'', VStr ''192.168.0.1'')] init_world)))))"

text \<open>A client that rejects every \<^verbatim>\<open>robot_move\<close> and accepts everything else.\<close>

definition env_move_fails :: env where
  "env_move_fails =
     env_of (\<lambda>h c. case c of robot_move r m p opt \<Rightarrow> Raises (Exception ''move rejected'')
                            | _ \<Rightarrow> Returns (VInt 1))"

definition home_angles :: val where
  "home_angles = VList [VInt 0, VInt 0, VInt 0, VInt 0, VInt 0, VInt 0]"

text \<open>
  A controller that rejects the slave-mode commands \<^verbatim>\<open>slvMove\<close> and
  \<^verbatim>\<open>slvChangeMode 0\<close> and accepts every other call.
\<close>

definition env_slave_rejects :: env where
  "env_slave_rejects =
     env_of (\<lambda>h c. case c of
         robot_execute rh cmd arg \<Rightarrow>
           if cmd = ''slvMove'' \<or> (cmd = ''slvChangeMode'' \<and> arg = VInt 0)
           then Raises (Exception ''slave command rejected'') else Returns VNone
       | _ \<Rightarrow> Returns (VInt 1))"

text \<open>A pose the robot reports, and a client on which the first \<^verbatim>\<open>TakeArm\<close> fails.\<close>

definition initial_pose_example :: val where
  "initial_pose_example = VList [VNum 100, VNum 200, VNum 300, VNum 180, VNum 0, VNum 90]"

definition env_first_takearm_fails :: env where
  "env_first_takearm_fails =
     env_of (\<lambda>h c. case c of
         variable_getvalue v \<Rightarrow> Returns initial_pose_example
       | robot_execute rh cmd arg \<Rightarrow>
           if cmd = ''TakeArm'' \<and> robot_execute rh cmd arg \<notin> set h
           then Raises (Exception ''arm busy'') else Returns VNone
       | _ \<Rightarrow> Returns (VInt 1))"

text \<open>Two points, and a client that rejects the move to the second.\<close>

definition second_point :: val where
  "second_point = VList [VInt 10, VInt 20, VInt 30, VInt 0, VInt 0, VInt 0]"

definition env_second_move_fails :: env where
  "env_second_move_fails =
     env_of (\<lambda>h c. case c of
         robot_move r m p opt \<Rightarrow>
           if p = VList [second_point, VStr ''J'', VStr ''@E'']
           then Raises (Exception ''out of range'') else Returns VNone
       | _ \<Rightarrow> Returns (VInt 1))"


text \<open>A client that reports the example pose and rejects every move.\<close>

definition env_pose_moves_rejected :: env where
  "env_pose_moves_rejected =
     env_of (\<lambda>h c. case c of
         variable_getvalue v \<Rightarrow> Returns initial_pose_example
       | robot_move r m p opt \<Rightarrow> Raises (Exception ''move rejected'')
       | _ \<Rightarrow> Returns (VInt 1))"

section \<open>Handlers that leave the handles alone\<close>

text \<open>
  Client calls, log entries and every handler other than the four connection handlers keep
  the client and the two handles as they are.
\<close>

lemma invoke_sh: "invoke E c w = (r, w') \<Longrightarrow> session_handles w' = session_handles w"
  by (auto simp: invoke_def session_handles_def)

lemma client_call_sh: "client_call E c w = (r, w') \<Longrightarrow> session_handles w' = session_handles w"
  by (auto simp: client_call_def session_handles_def invoke_def split: option.splits)

lemma log_operation_sh [simp]: "session_handles (log_operation E n a r e w) = session_handles w"
  by (simp add: log_operation_def session_handles_def)

lemma read_variable_opt_sh:
  "read_variable_opt (client_call E) rh n opt w = (r, w') \<Longrightarrow> session_handles w' = session_handles w"
  unfolding read_variable_opt_def
  by (auto split: prod.splits reply.splits dest!: client_call_sh)

lemma read_variable_sh:
  "read_variable E rh n w = (r, w') \<Longrightarrow> session_handles w' = session_handles w"
  unfolding read_variable_def read_variable_on_def by (rule read_variable_opt_sh)

lemma initial_angles_of_sh:
  "initial_angles_of E rh f w = (r, w') \<Longrightarrow> session_handles w' = session_handles w"
  unfolding initial_angles_of_def
  by (auto split: prod.splits reading.splits option.splits dest!: read_variable_sh)

lemma run_points_sh:
  "run_points E rh mo i ps ex fl w = (ex', fl', w') \<Longrightarrow> session_handles w' = session_handles w"
proof (induction ps arbitrary: i ex fl w)
  case Nil
  then show ?case by simp
next
  case (Cons p ps)
  then show ?case
    by (auto split: prod.splits reply.splits dest!: client_call_sh)
qed

lemma stream_points_sh:
  "stream_points E rh i ps ex fl w = (ex', fl', w') \<Longrightarrow> session_handles w' = session_handles w"
proof (induction ps arbitrary: i ex fl w)
  case Nil
  then show ?case by simp
next
  case (Cons p ps)
  then show ?case
    by (auto split: prod.splits reply.splits dest!: client_call_sh)
qed

lemma simple_primitive_sh:
  "simple_primitive E n a rdy hint c f w = (r, w') \<Longrightarrow> session_handles w' = session_handles w"
  unfolding simple_primitive_def
  by (auto split: prod.splits reply.splits if_splits dest!: client_call_sh)

lemma execute_trajectory_sh:
  "handle_robot_execute_trajectory E a w = (r, w') \<Longrightarrow> session_handles w' = session_handles w"
  unfolding handle_robot_execute_trajectory_def Let_def
  by (auto split: prod.splits reply.splits if_splits sum.splits option.splits
      dest!: client_call_sh initial_angles_of_sh run_points_sh)


lemma slave_try_sh:
  "slave_try E rh pts w = (r, ex, fl, w') \<Longrightarrow> session_handles w' = session_handles w"
  unfolding slave_try_def
  by (auto split: prod.splits reply.splits list.splits option.splits
      dest!: client_call_sh stream_points_sh)

lemma client_call_snd_sh: "session_handles (snd (client_call E c w)) = session_handles w"
  by (cases "client_call E c w") (auto dest: client_call_sh)

lemma slave_cleanup_sh: "session_handles (slave_cleanup E rh w) = session_handles w"
  unfolding slave_cleanup_def
  by (auto split: prod.splits reply.splits simp: client_call_snd_sh dest!: client_call_sh)

lemma execute_slave_trajectory_sh:
  "handle_robot_execute_slave_trajectory E a w = (r, w') \<Longrightarrow>
   session_handles w' = session_handles w"
  unfolding handle_robot_execute_slave_trajectory_def Let_def
  by (auto split: prod.splits if_splits sum.splits option.splits
      simp: slave_cleanup_sh dest!: initial_angles_of_sh slave_try_sh)

lemma gripper_step_sh:
  "gripper_step E ch n d act mm sp sg w = (sg', w') \<Longrightarrow> session_handles w' = session_handles w"
  unfolding gripper_step_def
  by (auto split: prod.splits reply.splits dest!: client_call_sh)

lemma move_down_to_pick_sh:
  "move_down_to_pick E rh P d sg w = (pz, sg', w') \<Longrightarrow> session_handles w' = session_handles w"
  by (cases P) (auto split: prod.splits reply.splits sum.splits dest!: client_call_sh)

lemma lift_up_sh:
  "lift_up E rh P d is cz sg w = (cz', sg', w') \<Longrightarrow> session_handles w' = session_handles w"
proof (induction "is" arbitrary: cz sg w)
  case Nil
  then show ?case by simp
next
  case (Cons i rest)
  then show ?case
    by (cases P) (auto simp: Let_def split: prod.splits reply.splits sum.splits dest!: client_call_sh)
qed

lemma move_y_to_place_sh:
  "move_y_to_place E rh P d cz sg w = (py, sg', w') \<Longrightarrow> session_handles w' = session_handles w"
  by (cases P) (auto split: prod.splits reply.splits sum.splits dest!: client_call_sh)

lemma move_down_to_place_sh:
  "move_down_to_place E rh P d cz py sg w = (sg', w') \<Longrightarrow> session_handles w' = session_handles w"
  by (cases P)
     (auto simp: Let_def split: prod.splits reply.splits sum.splits option.splits
           dest!: client_call_sh)

lemma return_to_initial_position_sh:
  "return_to_initial_position E rh P sg w = (sg', w') \<Longrightarrow> session_handles w' = session_handles w"
  by (cases P) (auto simp: Let_def split: prod.splits reply.splits dest!: client_call_sh)

lemma saga_steps_sh:
  "saga_steps E ch rh D sp P sg w = (r, sg', w') \<Longrightarrow> session_handles w' = session_handles w"
  unfolding saga_steps_def Let_def
  by (auto split: prod.splits sum.splits option.splits reading.splits
      dest!: gripper_step_sh move_down_to_pick_sh lift_up_sh move_y_to_place_sh
             move_down_to_place_sh return_to_initial_position_sh read_variable_sh)

lemma saga_try_sh:
  "saga_try E ch rh D ps sp w = (r, sg', w') \<Longrightarrow> session_handles w' = session_handles w"
  unfolding saga_try_def Let_def
  by (auto split: prod.splits sum.splits reading.splits dest!: read_variable_sh saga_steps_sh)

lemma pick_and_place_sh:
  "handle_robot_pick_and_place E a w = (r, w') \<Longrightarrow> session_handles w' = session_handles w"
  unfolding handle_robot_pick_and_place_def Let_def
  by (auto split: prod.splits sum.splits if_splits dest!: saga_try_sh)


lemma read_variable_invoke_sh:
  "read_variable_on (invoke E) rh n w = (r, w') \<Longrightarrow> session_handles w' = session_handles w"
  unfolding read_variable_on_def read_variable_opt_def
  by (auto split: prod.splits reply.splits dest!: invoke_sh)

lemma invoke_snd_sh: "session_handles (snd (invoke E c w)) = session_handles w"
  by (simp add: invoke_def session_handles_def)

lemma joint_move_try_sh:
  "joint_move_try E ja opt w = (r, w') \<Longrightarrow> session_handles w' = session_handles w"
  unfolding joint_move_try_def Let_def
  by (auto split: prod.splits reply.splits sum.splits reading.splits if_splits
      simp: invoke_snd_sh dest!: invoke_sh read_variable_invoke_sh)

lemma move_to_joint_angles_sh:
  "handle_robot_move_to_joint_angles E a w = (r, w') \<Longrightarrow> session_handles w' = session_handles w"
  unfolding handle_robot_move_to_joint_angles_def Let_def
  by (auto split: prod.splits reply.splits sum.splits dest!: invoke_sh joint_move_try_sh)

lemma move_to_pose_sh:
  "handle_robot_move_to_pose E a w = (r, w') \<Longrightarrow> session_handles w' = session_handles w"
  unfolding handle_robot_move_to_pose_def Let_def
  by (auto split: prod.splits reply.splits sum.splits option.splits reading.splits if_splits
      dest!: client_call_sh read_variable_sh)

lemma get_variable_sh:
  "handle_robot_get_variable E a w = (r, w') \<Longrightarrow> session_handles w' = session_handles w"
  unfolding handle_robot_get_variable_def Let_def
  by (auto split: prod.splits sum.splits reading.splits if_splits dest!: read_variable_opt_sh)

lemma gohome_sh:
  "handle_robot_gohome E a w = (r, w') \<Longrightarrow> session_handles w' = session_handles w"
  unfolding handle_robot_gohome_def Let_def
  by (auto split: prod.splits reply.splits reading.splits if_splits
      dest!: client_call_sh read_variable_sh)

lemma gripper_handler_sh:
  "gripper_handler E n v act ph dd sd a w = (r, w') \<Longrightarrow> session_handles w' = session_handles w"
  unfolding gripper_handler_def Let_def
  by (auto split: prod.splits reply.splits sum.splits option.splits if_splits
      dest!: client_call_sh)

lemma get_operation_log_sh:
  "handle_get_operation_log E a w = (r, w') \<Longrightarrow> session_handles w' = session_handles w"
  unfolding handle_get_operation_log_def Let_def
  by (auto split: sum.splits)

lemma prefix_chain_sh:
  "session_handles w' = session_handles w \<Longrightarrow> prefix_chain (state w) \<Longrightarrow> prefix_chain (state w')"
  by (simp add: session_handles_def prefix_chain_def)

text \<open>What \<^verbatim>\<open>reset\<close> does to the state.\<close>

lemma reset_cases:
  "reset E w = (r, w') \<Longrightarrow>
     (r = None \<and> state w' = (state w)\<lparr>client := None, controller_handle := VNone,
                                        robot_handle := VNone, connection_info := []\<rparr>)
   \<or> (r \<noteq> None \<and> state w' = state w)"
  unfolding reset_def
  by (auto simp: invoke_def split: prod.splits reply.splits if_splits)

lemma reset_prefix_chain:
  "prefix_chain (state w) \<Longrightarrow> prefix_chain (state (snd (reset E w)))"
  using reset_cases [of E w "fst (reset E w)" "snd (reset E w)"]
  by (auto simp: prefix_chain_def)

lemma connect_prefix_chain:
  "prefix_chain (state w) \<Longrightarrow> prefix_chain (state (snd (handle_connect E a w)))"
  unfolding handle_connect_def Let_def
  by (auto simp: prefix_chain_def invoke_def log_operation_def
      split: prod.splits sum.splits option.splits reply.splits if_splits dest!: reset_cases)

lemma disconnect_prefix_chain:
  "prefix_chain (state w) \<Longrightarrow> prefix_chain (state (snd (handle_disconnect E a w)))"
  unfolding handle_disconnect_def Let_def
  by (auto simp: prefix_chain_def log_operation_def
      split: prod.splits option.splits dest!: reset_cases)

lemma controller_connect_prefix_chain:
  "returns_handles E \<Longrightarrow> prefix_chain (state w) \<Longrightarrow>
   prefix_chain (state (snd (handle_controller_connect E a w)))"
  unfolding handle_controller_connect_def Let_def returns_handles_def
  by (auto simp: prefix_chain_def invoke_def log_operation_def split: prod.splits reply.splits)

lemma truthy_not_None: "truthy v \<Longrightarrow> v \<noteq> VNone"
  by auto

lemma robot_connect_prefix_chain:
  "prefix_chain (state w) \<Longrightarrow> prefix_chain (state (snd (handle_robot_connect E a w)))"
  unfolding handle_robot_connect_def Let_def
  by (auto simp: prefix_chain_def invoke_def client_call_def log_operation_def
      split: prod.splits reply.splits option.splits dest: truthy_not_None)

lemma quiet_prefix_chain:
  assumes "\<And>r w'. f = (r, w') \<Longrightarrow> session_handles w' = session_handles w"
    and "prefix_chain (state w)"
  shows "prefix_chain (state (snd f))"
  using assms by (cases f) (auto simp: session_handles_def prefix_chain_def)

lemma dispatch_prefix_chain:
  assumes E: "returns_handles E" and inv: "prefix_chain (state w)"
  shows "prefix_chain (state (snd (dispatch E name a w)))"
proof -
  note q = quiet_prefix_chain [OF _ inv]
  have 1: "prefix_chain (state (snd (simple_primitive E n a rdy hint c f w)))" for n rdy hint c f
    by (rule q) (rule simple_primitive_sh)
  have 2: "prefix_chain (state (snd (handle_robot_get_variable E a w)))"
    by (rule q) (rule get_variable_sh)
  have 3: "prefix_chain (state (snd (handle_robot_move_to_joint_angles E a w)))"
    by (rule q) (rule move_to_joint_angles_sh)
  have 4: "prefix_chain (state (snd (handle_robot_move_to_pose E a w)))"
    by (rule q) (rule move_to_pose_sh)
  have 5: "prefix_chain (state (snd (handle_robot_gohome E a w)))"
    by (rule q) (rule gohome_sh)
  have 6: "prefix_chain (state (snd (handle_robot_execute_trajectory E a w)))"
    by (rule q) (rule execute_trajectory_sh)
  have 7: "prefix_chain (state (snd (handle_robot_execute_slave_trajectory E a w)))"
    by (rule q) (rule execute_slave_trajectory_sh)
  have 8: "prefix_chain (state (snd (gripper_handler E n v act ph dd sd a w)))" for n v act ph dd sd
    by (rule q) (rule gripper_handler_sh)
  have 9: "prefix_chain (state (snd (handle_robot_pick_and_place E a w)))"
    by (rule q) (rule pick_and_place_sh)
  have 10: "prefix_chain (state (snd (handle_get_operation_log E a w)))"
    by (rule q) (rule get_operation_log_sh)
  show ?thesis
    unfolding dispatch_def
      handle_controller_get_robot_names_def handle_controller_get_variable_names_def
      handle_controller_clear_error_def handle_robot_get_variable_names_def
      handle_robot_set_speed_def handle_robot_open_gripper_def handle_robot_close_gripper_def
      Let_def
    using inv
    by (simp add: connect_prefix_chain disconnect_prefix_chain
          controller_connect_prefix_chain [OF E] robot_connect_prefix_chain
          handle_get_connection_status_def 1 2 3 4 5 6 7 8 9 10)
qed

lemma call_tool_prefix_chain:
  assumes E: "returns_handles E" and inv: "prefix_chain (state w)"
  shows "prefix_chain (state (snd (call_tool E name a w)))"
proof -
  have d: "prefix_chain (state (snd (dispatch E name a w)))"
    using E inv by (rule dispatch_prefix_chain)
  have l: "\<And>n r e v. prefix_chain (state v) \<Longrightarrow> prefix_chain (state (log_operation E n a r e v))"
    by (simp add: prefix_chain_def log_operation_def)
  show ?thesis
    using d unfolding call_tool_def Let_def
    by (auto split: prod.splits sum.splits error.splits intro: l)
qed

lemma reachable_prefix_chain:
  assumes E: "returns_handles E" and r: "reachable E w"
  shows "prefix_chain (state w)"
  using r
proof (induction rule: reachable.induct)
  case start
  show ?case by (simp add: prefix_chain_def init_world_def init_state_def)
next
  case (tool w name arguments)
  then show ?case by (simp add: call_tool_prefix_chain [OF E])
next
  case (reset w)
  then show ?case by (simp add: reset_prefix_chain)
qed

section \<open>The calls of a reset\<close>

text \<open>
  A reset issues at most two calls: the release of the robot handle, then the disconnect of
  the controller handle.
\<close>

lemma reset_calls:
  "\<exists>rel dis. calls (snd (reset E w)) = calls w @ rel @ dis
     \<and> (rel = [] \<or> rel = [robot_release (robot_handle (state w))])
     \<and> (dis = [] \<or> dis = [controller_disconnect (controller_handle (state w))])
     \<and> (client (state w) \<noteq> None \<and> truthy (robot_handle (state w)) \<longrightarrow> rel \<noteq> [])
     \<and> (client (state w) = None \<longrightarrow> rel = [] \<and> dis = [])"
proof (cases "client (state w) \<noteq> None \<and> truthy (robot_handle (state w))")
  case A: True
  show ?thesis
  proof (cases "bcap E (calls w) (robot_release (robot_handle (state w)))")
    case (Raises e)
    with A have "calls (snd (reset E w)) = calls w @ [robot_release (robot_handle (state w))] @ []"
      by (simp add: reset_def invoke_def)
    with A show ?thesis
      by (intro exI [of _ "[robot_release (robot_handle (state w))]"] exI [of _ "[]"]) simp
  next
    case (Returns u)
    show ?thesis
    proof (cases "truthy (controller_handle (state w))")
      case False
      with A Returns
      have "calls (snd (reset E w)) = calls w @ [robot_release (robot_handle (state w))] @ []"
        by (simp add: reset_def invoke_def)
      with A show ?thesis
        by (intro exI [of _ "[robot_release (robot_handle (state w))]"] exI [of _ "[]"]) simp
    next
      case True
      with A Returns
      have "calls (snd (reset E w)) = calls w @ [robot_release (robot_handle (state w))]
              @ [controller_disconnect (controller_handle (state w))]"
        by (cases "bcap E (calls w @ [robot_release (robot_handle (state w))])
                     (controller_disconnect (controller_handle (state w)))")
           (simp_all add: reset_def invoke_def)
      with A show ?thesis
        by (intro exI [of _ "[robot_release (robot_handle (state w))]"]
              exI [of _ "[controller_disconnect (controller_handle (state w))]"]) simp
    qed
  qed
next
  case A: False
  show ?thesis
  proof (cases "client (state w) \<noteq> None \<and> truthy (controller_handle (state w))")
    case True
    with A
    have "calls (snd (reset E w)) = calls w @ [] @ [controller_disconnect (controller_handle (state w))]"
      by (cases "bcap E (calls w) (controller_disconnect (controller_handle (state w)))")
         (auto simp add: reset_def invoke_def)
    with A True show ?thesis
      by (intro exI [of _ "[]"]
            exI [of _ "[controller_disconnect (controller_handle (state w))]"]) auto
  next
    case False
    with A have "calls (snd (reset E w)) = calls w @ [] @ []"
      by (auto simp add: reset_def)
    with A False show ?thesis
      by (intro exI [of _ "[]"] exI [of _ "[]"]) auto
  qed
qed

section \<open>Disconnect on a session that is not connected\<close>

text \<open>
  C10. When \<^verbatim>\<open>handle_disconnect\<close> runs while \<^verbatim>\<open>state.client\<close> is \<^verbatim>\<open>None\<close>, it
  returns the failure envelope \<^verbatim>\<open>{"success": false, "error": "Not connected"}\<close> without
  raising, and the whole world is as before: every field of the session state, the
  operation log included, and the list of client calls.
\<close>

theorem disconnect_not_connected:
  "client (state w) = None \<Longrightarrow>
   handle_disconnect E args w =
     (Inr (VDict [(''success'', VBool False), (''error'', VStr ''Not connected'')]), w)"
  by (simp add: handle_disconnect_def)

theorem disconnect_not_connected_witness:
  "client (state init_world) = None \<and>
   handle_disconnect env_ok [] init_world =
     (Inr (VDict [(''success'', VBool False), (''error'', VStr ''Not connected'')]), init_world)"
  using disconnect_not_connected [of init_world env_ok "[]"]
  by (simp add: init_world_def init_state_def)

section \<open>Reading the operation log\<close>

text \<open>
  For a positive limit the slice \<^verbatim>\<open>operation_log[-limit:]\<close> is the last
  \<open>min limit (length log)\<close> entries, in order, and the log is not touched.
\<close>

lemma slice_from_neg: "0 < n \<Longrightarrow> slice_from (- n) xs = drop (length xs - nat n) xs"
  by (auto simp: slice_from_def Let_def max_def intro: arg_cong [where f = "\<lambda>k. drop k xs"])

text \<open>
  C7. With \<^verbatim>\<open>limit = 0\<close> the slice is \<^verbatim>\<open>operation_log[-0:]\<close>, which is the whole
  list: the read returns every entry of the log, not the empty sequence.
\<close>

theorem operation_log_limit_zero:
  "handle_get_operation_log E [(''limit'', VInt 0)] w =
     (Inr (VDict [(''success'', VBool True),
                  (''total_operations'', VInt (int (length (operation_log (state w))))),
                  (''returned_count'', VInt (int (length (operation_log (state w))))),
                  (''logs'', VList (operation_log (state w)))]), w)"
  by (simp add: handle_get_operation_log_def dict_get_def slice_from_def Let_def)

section \<open>Reset\<close>










section \<open>The prefix chain of handles\<close>

lemma robot_connect_needs_controller:
  "controller_handle (state w) = VNone \<Longrightarrow>
   handle_robot_connect E a w = (Inl (Exception ''Please call bcap_controller_connect first''), w)"
  by (simp add: handle_robot_connect_def)

text \<open>
  C1. Let the client return a handle, not \<^verbatim>\<open>None\<close>, whenever its
  \<^verbatim>\<open>controller_connect\<close> returns. Then in every reachable world a robot handle other
  than \<^verbatim>\<open>None\<close> implies a controller handle other than \<^verbatim>\<open>None\<close>, which implies a
  client. Connect, controller-connect, robot-connect, disconnect, reset and every request
  through the dispatcher preserve this, whatever the client answers. Robot-connect on a
  session whose controller handle is \<^verbatim>\<open>None\<close> raises the precondition error and
  changes nothing. The calls of a reset are the release of the robot handle first and the
  disconnect of the controller handle after it.
\<close>

theorem prefix_chain_invariant:
  assumes E: "returns_handles E"
  shows "(reachable E w \<longrightarrow> prefix_chain (state w))
   \<and> (prefix_chain (state w) \<longrightarrow>
        prefix_chain (state (snd (handle_connect E a w))) \<and>
        prefix_chain (state (snd (handle_controller_connect E a w))) \<and>
        prefix_chain (state (snd (handle_robot_connect E a w))) \<and>
        prefix_chain (state (snd (handle_disconnect E a w))) \<and>
        prefix_chain (state (snd (reset E w))) \<and>
        prefix_chain (state (snd (call_tool E name a w))))
   \<and> (controller_handle (state w) = VNone \<longrightarrow>
        handle_robot_connect E a w =
          (Inl (Exception ''Please call bcap_controller_connect first''), w))
   \<and> (\<exists>rel dis. calls (snd (reset E w)) = calls w @ rel @ dis
         \<and> (rel = [] \<or> rel = [robot_release (robot_handle (state w))])
         \<and> (dis = [] \<or> dis = [controller_disconnect (controller_handle (state w))])
         \<and> (client (state w) \<noteq> None \<and> truthy (robot_handle (state w)) \<longrightarrow> rel \<noteq> [])
         \<and> (client (state w) = None \<longrightarrow> rel = [] \<and> dis = []))"
proof -
  have 1: "reachable E w \<longrightarrow> prefix_chain (state w)"
    using reachable_prefix_chain [OF E] by blast
  have 2: "prefix_chain (state w) \<longrightarrow>
        prefix_chain (state (snd (handle_connect E a w))) \<and>
        prefix_chain (state (snd (handle_controller_connect E a w))) \<and>
        prefix_chain (state (snd (handle_robot_connect E a w))) \<and>
        prefix_chain (state (snd (handle_disconnect E a w))) \<and>
        prefix_chain (state (snd (reset E w))) \<and>
        prefix_chain (state (snd (call_tool E name a w)))"
    by (simp add: connect_prefix_chain controller_connect_prefix_chain [OF E]
      robot_connect_prefix_chain disconnect_prefix_chain reset_prefix_chain
      call_tool_prefix_chain [OF E])
  have 3: "controller_handle (state w) = VNone \<longrightarrow>
        handle_robot_connect E a w =
          (Inl (Exception ''Please call bcap_controller_connect first''), w)"
    by (simp add: robot_connect_needs_controller)
  show ?thesis
    by (rule conjI [OF 1 conjI [OF 2 conjI [OF 3 reset_calls]]])
qed

lemma session3_state:
  "robot_handle (state session3) = VInt 1 \<and> controller_handle (state session3) = VInt 1
     \<and> client (state session3) \<noteq> None"
  by (simp add: session3_def call_tool_def dispatch_def handle_connect_def
      handle_controller_connect_def handle_robot_connect_def init_world_def init_state_def
      env_ok_def env_of_def invoke_def client_call_def log_operation_def dict_item_def
      dict_get_def Let_def)

theorem prefix_chain_invariant_witness:
  "returns_handles env_ok \<and> reachable env_ok session3 \<and> prefix_chain (state session3)
   \<and> robot_handle (state session3) = VInt 1 \<and> controller_handle (state session3) = VInt 1
   \<and> client (state session3) \<noteq> None
   \<and> handle_robot_connect env_ok [] init_world =
          (Inl (Exception ''Please call bcap_controller_connect first''), init_world)"
proof -
  have E: "returns_handles env_ok"
    by (simp add: returns_handles_def env_ok_def env_of_def)
  have r: "reachable env_ok session3"
    unfolding session3_def by (intro reachable.tool reachable.start)
  have n: "controller_handle (state init_world) = VNone"
    by (simp add: init_world_def init_state_def)
  note s = session3_state
  have p: "prefix_chain (state session3)"
    using prefix_chain_invariant [OF E, of session3 "[]" "[]"] r by blast
  have q: "handle_robot_connect env_ok [] init_world =
          (Inl (Exception ''Please call bcap_controller_connect first''), init_world)"
    using prefix_chain_invariant [OF E, of init_world "[]" "[]"] n by blast
  from E r p s q show ?thesis by simp
qed

section \<open>The single joint move\<close>

lemma invoke_state: "invoke E c w = (r, w') \<Longrightarrow> state w' = state w"
  by (auto simp: invoke_def)

lemma read_variable_invoke_state:
  "read_variable_on (invoke E) rh n w = (r, w') \<Longrightarrow> state w' = state w"
  unfolding read_variable_on_def read_variable_opt_def
  by (auto split: prod.splits reply.splits dest!: invoke_state)

lemma invoke_snd_state: "state (snd (invoke E c w)) = state w"
  by (simp add: invoke_def)

lemma joint_move_try_state:
  "joint_move_try E ja opt w = (r, w') \<Longrightarrow> state w' = state w"
  unfolding joint_move_try_def Let_def
  by (auto split: prod.splits reply.splits sum.splits reading.splits if_splits
      simp: invoke_snd_state dest!: invoke_state read_variable_invoke_state)

lemma joint_move_result:
  assumes "dict_item a ''joint_angles'' = Inr ja"
    and "bcap E (calls w) (BCAPClient (dict_get (connection_info (state w)) ''host'' (VStr ''192.168.0.1''))
           (dict_get (connection_info (state w)) ''port'' (VInt 5007))
           (dict_get (connection_info (state w)) ''timeout'' (VNum 3))) = Returns u"
  shows "\<exists>r w'. handle_robot_move_to_joint_angles E a w = (Inr r, w') \<and> state w' = state w"
proof -
  obtain x w2 where j: "joint_move_try E ja (dict_get a ''option'' (VStr ''''))
      (w\<lparr>calls := calls w @ [BCAPClient (dict_get (connection_info (state w)) ''host'' (VStr ''192.168.0.1''))
           (dict_get (connection_info (state w)) ''port'' (VInt 5007))
           (dict_get (connection_info (state w)) ''timeout'' (VNum 3))]\<rparr>) = (x, w2)"
    by (cases "joint_move_try E ja (dict_get a ''option'' (VStr ''''))
      (w\<lparr>calls := calls w @ [BCAPClient (dict_get (connection_info (state w)) ''host'' (VStr ''192.168.0.1''))
           (dict_get (connection_info (state w)) ''port'' (VInt 5007))
           (dict_get (connection_info (state w)) ''timeout'' (VNum 3))]\<rparr>)") blast
  from joint_move_try_state [OF j] have s: "state w2 = state w" by simp
  show ?thesis
    using assms j s
    by (cases x) (simp_all add: handle_robot_move_to_joint_angles_def invoke_def Let_def)
qed

lemma joint_move_never_logs:
  assumes "dict_item a ''joint_angles'' = Inr ja"
    and "bcap E (calls w) (BCAPClient (dict_get (connection_info (state w)) ''host'' (VStr ''192.168.0.1''))
           (dict_get (connection_info (state w)) ''port'' (VInt 5007))
           (dict_get (connection_info (state w)) ''timeout'' (VNum 3))) = Returns u"
  shows "state (snd (call_tool E ''bcap_robot_move_to_joint_angles'' a w)) = state w"
proof -
  from joint_move_result [OF assms] obtain r w'
    where "handle_robot_move_to_joint_angles E a w = (Inr r, w')" and "state w' = state w"
    by blast
  then show ?thesis by (simp add: call_tool_def dispatch_def)
qed

text \<open>
  C5. Three operations return without a log entry: the status query and the log read never
  write one, and the single joint move writes none whether the move succeeds (every client
  call succeeds) or fails (the client rejects the move and the result has
  \<^verbatim>\<open>success = false\<close>). The log after the request is the log before it.
\<close>

theorem operations_without_log_entry:
  "operation_log (state (snd (call_tool E ''bcap_get_connection_status'' a w)))
     = operation_log (state w)
   \<and> operation_log (state (snd (call_tool E ''bcap_get_operation_log'' [] w)))
     = operation_log (state w)
   \<and> operation_log (state (snd (call_tool env_ok ''bcap_robot_move_to_joint_angles''
        [(''joint_angles'', home_angles)] w))) = operation_log (state w)
   \<and> result_field (fst (call_tool env_ok ''bcap_robot_move_to_joint_angles''
        [(''joint_angles'', home_angles)] w)) ''success'' = VBool True
   \<and> operation_log (state (snd (call_tool env_move_fails ''bcap_robot_move_to_joint_angles''
        [(''joint_angles'', home_angles)] w))) = operation_log (state w)
   \<and> result_field (fst (call_tool env_move_fails ''bcap_robot_move_to_joint_angles''
        [(''joint_angles'', home_angles)] w)) ''success'' = VBool False"
proof -
  have 1: "operation_log (state (snd (call_tool E ''bcap_get_connection_status'' a w)))
     = operation_log (state w)"
    by (simp add: call_tool_def dispatch_def handle_get_connection_status_def)
  have 2: "operation_log (state (snd (call_tool E ''bcap_get_operation_log'' [] w)))
     = operation_log (state w)"
    by (simp add: call_tool_def dispatch_def handle_get_operation_log_def dict_get_def Let_def)
  have 3: "operation_log (state (snd (call_tool env_ok ''bcap_robot_move_to_joint_angles''
        [(''joint_angles'', home_angles)] w))) = operation_log (state w)"
    by (subst joint_move_never_logs [where ja = home_angles and u = "VInt 1"])
       (simp_all add: dict_item_def env_ok_def env_of_def)
  have 5: "operation_log (state (snd (call_tool env_move_fails ''bcap_robot_move_to_joint_angles''
        [(''joint_angles'', home_angles)] w))) = operation_log (state w)"
    by (subst joint_move_never_logs [where ja = home_angles and u = "VInt 1"])
       (simp_all add: dict_item_def env_move_fails_def env_of_def)
  have 4: "result_field (fst (call_tool env_ok ''bcap_robot_move_to_joint_angles''
        [(''joint_angles'', home_angles)] w)) ''success'' = VBool True"
    by (simp add: call_tool_def dispatch_def handle_robot_move_to_joint_angles_def
        joint_move_try_def read_variable_on_def read_variable_opt_def invoke_def
        dict_item_def dict_get_def env_ok_def env_of_def take_arm_def Let_def)
  have 6: "result_field (fst (call_tool env_move_fails ''bcap_robot_move_to_joint_angles''
        [(''joint_angles'', home_angles)] w)) ''success'' = VBool False"
    by (simp add: call_tool_def dispatch_def handle_robot_move_to_joint_angles_def
        joint_move_try_def read_variable_on_def read_variable_opt_def invoke_def
        dict_item_def dict_get_def env_move_fails_def env_of_def take_arm_def Let_def)
  show ?thesis
    by (rule conjI [OF 1 conjI [OF 2 conjI [OF 3 conjI [OF 4 conjI [OF 5 6]]]]])
qed

text \<open>
  C6. On the fresh process, where no connect has happened and all three handles are
  \<^verbatim>\<open>None\<close>, the single joint move raises no precondition error: it opens a client to
  the default address, connects controller and robot on it, takes the arm, issues the move
  and reports success.
\<close>

theorem joint_move_without_session:
  "call_tool env_ok ''bcap_robot_move_to_joint_angles'' [(''joint_angles'', home_angles)] init_world =
     (VDict [(''success'', VBool True),
             (''previous_joint_angles'', VInt 1),
             (''target_joint_angles'', home_angles),
             (''message'', VStr ''Robot motion command sent (following read_joint_angles.py single connection pattern)'')],
      init_world\<lparr>calls :=
        [BCAPClient (VStr ''192.168.0.1'') (VInt 5007) (VNum 3),
         controller_connect (VStr '''') (VStr ''CaoProv.DENSO.VRC'') (VStr ''localhost'') (VStr ''''),
         controller_getrobot (VInt 1) (VStr ''Arm'') (VStr ''''),
         robot_getvariable (VInt 1) (VStr ''@CURRENT_ANGLE'') (VStr ''''),
         variable_getvalue (VInt 1),
         variable_release (VInt 1),
         robot_execute (VInt 1) ''TakeArm'' (VList [VInt 0, VInt 0]),
         robot_move (VInt 1) 1 (VList [home_angles, VStr ''J'', VStr ''@E'']) (VStr ''''),
         robot_release (VInt 1),
         controller_disconnect (VInt 1)]\<rparr>)"
  by (simp add: call_tool_def dispatch_def handle_robot_move_to_joint_angles_def
        joint_move_try_def read_variable_on_def read_variable_opt_def invoke_def
        dict_item_def dict_get_def env_ok_def env_of_def take_arm_def Let_def
        init_world_def init_state_def)

text \<open>
  The other primitives do check first: without a truthy robot handle, or controller handle
  for the gripper, they raise before any client call.
\<close>

lemma primitives_check_preconditions:
  "\<not> truthy (robot_handle (state w)) \<Longrightarrow>
     handle_robot_move_to_pose E a w = (Inl (Exception ''Please call bcap_robot_connect first''), w)
   \<and> handle_robot_get_variable E a w = (Inl (Exception ''Please call bcap_robot_connect first''), w)
   \<and> handle_robot_get_variable_names E a w = (Inl (Exception ''Please call bcap_robot_connect first''), w)
   \<and> handle_robot_gohome E a w = (Inl (Exception ''Please call bcap_robot_connect first''), w)
   \<and> handle_robot_set_speed E a w = (Inl (Exception ''Please call bcap_robot_connect first''), w)
   \<and> handle_robot_execute_trajectory E a w = (Inl (Exception ''Please call bcap_robot_connect first''), w)
   \<and> handle_robot_execute_slave_trajectory E a w = (Inl (Exception ''Please call bcap_robot_connect first''), w)"
  by (simp add: handle_robot_move_to_pose_def handle_robot_get_variable_def
      handle_robot_get_variable_names_def handle_robot_gohome_def handle_robot_set_speed_def
      handle_robot_execute_trajectory_def handle_robot_execute_slave_trajectory_def
      simple_primitive_def Let_def)

lemma controller_primitives_check_preconditions:
  "\<not> truthy (controller_handle (state w)) \<Longrightarrow>
     handle_robot_open_gripper E a w = (Inl (Exception ''Please call bcap_controller_connect first''), w)
   \<and> handle_robot_close_gripper E a w = (Inl (Exception ''Please call bcap_controller_connect first''), w)
   \<and> handle_robot_pick_and_place E a w = (Inl (Exception ''Please call bcap_controller_connect first''), w)
   \<and> handle_controller_get_robot_names E a w = (Inl (Exception ''Please call bcap_controller_connect first''), w)
   \<and> handle_controller_get_variable_names E a w = (Inl (Exception ''Please call bcap_controller_connect first''), w)
   \<and> handle_controller_clear_error E a w = (Inl (Exception ''Please call bcap_controller_connect first''), w)
   \<and> handle_robot_connect E a w = (Inl (Exception ''Please call bcap_controller_connect first''), w)"
  by (simp add: handle_robot_open_gripper_def handle_robot_close_gripper_def gripper_handler_def
      handle_robot_pick_and_place_def handle_controller_get_robot_names_def
      handle_controller_get_variable_names_def handle_controller_clear_error_def
      handle_robot_connect_def simple_primitive_def Let_def)

section \<open>Slave mode: cleanup after a failure\<close>

lemmas slave_defs = call_tool_def dispatch_def handle_robot_execute_slave_trajectory_def
  dict_item_def dict_get_def initial_angles_of_def read_variable_def read_variable_on_def
  read_variable_opt_def client_call_def invoke_def slave_try_def slave_cleanup_def
  take_arm_def give_arm_def slv_move_def slv_change_mode_def failed_entry_def executed_entry_def
  log_operation_def Let_def

text \<open>
  C3. A controller rejects the first streamed point and then the command that leaves slave
  mode, and would accept \<^verbatim>\<open>GiveArm\<close>. The operation reports failure and no second
  point is sent, as claimed; but the cleanup stops at the rejected mode change, and
  \<^verbatim>\<open>GiveArm\<close> is never attempted: the arm taken at the start stays taken.
\<close>

theorem slave_cleanup_skips_give_arm:
  "calls (snd (call_tool env_slave_rejects ''bcap_robot_execute_slave_trajectory''
      [(''trajectory'', VList [home_angles, home_angles])] connected_world)) =
     [robot_getvariable (VInt 2) (VStr ''@CURRENT_ANGLE'') (VStr ''''),
      variable_getvalue (VInt 1),
      variable_release (VInt 1),
      robot_execute (VInt 2) ''TakeArm'' (VList [VInt 0, VInt 0]),
      robot_execute (VInt 2) ''slvChangeMode'' (VInt 0x202),
      robot_execute (VInt 2) ''slvMove''
        (VList [VInt 0, VInt 0, VInt 0, VInt 0, VInt 0, VInt 0, VInt 0, VInt 0]),
      robot_execute (VInt 2) ''slvChangeMode'' (VInt 0)]
   \<and> result_field (fst (call_tool env_slave_rejects ''bcap_robot_execute_slave_trajectory''
      [(''trajectory'', VList [home_angles, home_angles])] connected_world)) ''success'' = VBool False
   \<and> bcap env_slave_rejects h (robot_execute (VInt 2) ''GiveArm'' VNone) = Returns VNone"
  by (simp add: slave_defs env_slave_rejects_def env_of_def connected_world_def home_angles_def)

section \<open>Pick and place: a failed step\<close>

lemmas saga_defs = call_tool_def dispatch_def handle_robot_pick_and_place_def
  dict_item_def dict_get_def read_variable_def read_variable_on_def
  read_variable_opt_def client_call_def invoke_def saga_try_def saga_steps_def
  gripper_step_def hand_move_def pose_move_def step_failed_def step_moved_def
  take_arm_def py_mul_def py_sub_def py_add_def py_truediv_def py_arith_def
  log_operation_def Let_def

text \<open>
  C4. The initial pose is captured and the gripper opens, then \<^verbatim>\<open>TakeArm\<close> of step 2
  fails. Step 3 still runs, but steps 4 to 10 are never attempted: \<^verbatim>\<open>pick_z\<close> was not
  assigned, reading it ends the saga, and no move is issued at all, the return to the
  initial pose included.
\<close>

theorem saga_stops_after_failed_takearm:
  "calls (snd (call_tool env_first_takearm_fails ''bcap_robot_pick_and_place'' [] connected_world)) =
     [robot_getvariable (VInt 2) (VStr ''@CURRENT_POSITION'') (VStr ''''),
      variable_getvalue (VInt 1),
      variable_release (VInt 1),
      controller_execute (VInt 1) ''HandMoveA'' (VList [VNum 30, VInt 100]),
      robot_execute (VInt 2) ''TakeArm'' (VList [VInt 0, VInt 0]),
      controller_execute (VInt 1) ''HandMoveA'' (VList [VNum 21, VInt 100])]
   \<and> result_field (fst (call_tool env_first_takearm_fails ''bcap_robot_pick_and_place'' []
        connected_world)) ''success'' = VBool False
   \<and> result_field (fst (call_tool env_first_takearm_fails ''bcap_robot_pick_and_place'' []
        connected_world)) ''error'' = VStr ''cannot access local variable pick_z''
   \<and> result_field (fst (call_tool env_first_takearm_fails ''bcap_robot_pick_and_place'' []
        connected_world)) ''errors'' = VList [VStr ''Step 2 failed: arm busy'']"
  by (simp add: saga_defs env_first_takearm_fails_def env_of_def connected_world_def
      initial_pose_example_def)

section \<open>The discrete trajectory\<close>

lemma validate_points_ok:
  "(\<forall>p\<in>set pts. py_len p = Some 6) \<Longrightarrow> validate_points E i pts = None"
  by (induction pts arbitrary: i) auto

lemma validate_points_bad:
  "(\<exists>p\<in>set pts. py_len p \<noteq> Some 6) \<Longrightarrow> \<exists>e. validate_points E i pts = Some e"
  by (induction pts arbitrary: i) (auto split: option.splits)

lemma client_call_connected:
  "client (state w) \<noteq> None \<Longrightarrow>
   client_call E c w = (bcap E (calls w) c, w\<lparr>calls := calls w @ [c]\<rparr>)"
  by (auto simp: client_call_def invoke_def)

lemma client_call_returns:
  "client_call E c w = (Returns u, w') \<Longrightarrow> client (state w) \<noteq> None"
  by (auto simp: client_call_def split: option.splits)

lemma run_points_world:
  "client (state w) \<noteq> None \<Longrightarrow> run_points E rh mo i ps ex fl w = (ex', fl', w') \<Longrightarrow>
   w' = w\<lparr>calls := calls w @ map (\<lambda>p. joint_move rh p mo) ps\<rparr>"
proof (induction ps arbitrary: i ex fl w)
  case Nil
  then show ?case by simp
next
  case (Cons p ps)
  let ?w1 = "w\<lparr>calls := calls w @ [joint_move rh p mo]\<rparr>"
  have c1: "client (state ?w1) \<noteq> None" using Cons.prems(1) by simp
  show ?case
  proof (cases "bcap E (calls w) (joint_move rh p mo)")
    case (Raises e)
    with Cons.prems have "run_points E rh mo (Suc i) ps ex (fl @ [failed_entry i p e]) ?w1 = (ex', fl', w')"
      by (simp add: client_call_connected)
    from Cons.IH [OF c1 this] show ?thesis by simp
  next
    case (Returns u)
    with Cons.prems have "run_points E rh mo (Suc i) ps (ex @ [executed_entry i p]) fl ?w1 = (ex', fl', w')"
      by (simp add: client_call_connected)
    from Cons.IH [OF c1 this] show ?thesis by simp
  qed
qed

lemma run_points_grows:
  "run_points E rh mo i ps ex fl w = (ex', fl', w') \<Longrightarrow>
   (\<exists>ex2 fl2. ex' = ex @ ex2 \<and> fl' = fl @ fl2 \<and> length ex2 + length fl2 = length ps)"
proof (induction ps arbitrary: i ex fl w)
  case Nil
  then show ?case by simp
next
  case (Cons p ps)
  obtain r w1 where c: "client_call E (joint_move rh p mo) w = (r, w1)"
    by (cases "client_call E (joint_move rh p mo) w") blast
  show ?case
  proof (cases r)
    case (Raises e)
    with c Cons.prems
    have "run_points E rh mo (Suc i) ps ex (fl @ [failed_entry i p e]) w1 = (ex', fl', w')"
      by simp
    from Cons.IH [OF this] obtain ex2 fl2
      where "ex' = ex @ ex2" "fl' = (fl @ [failed_entry i p e]) @ fl2"
        "length ex2 + length fl2 = length ps" by blast
    then show ?thesis
      by (intro exI [of _ ex2] exI [of _ "failed_entry i p e # fl2"]) simp
  next
    case (Returns u)
    with c Cons.prems
    have "run_points E rh mo (Suc i) ps (ex @ [executed_entry i p]) fl w1 = (ex', fl', w')"
      by simp
    from Cons.IH [OF this] obtain ex2 fl2
      where "ex' = (ex @ [executed_entry i p]) @ ex2" "fl' = fl @ fl2"
        "length ex2 + length fl2 = length ps" by blast
    then show ?thesis
      by (intro exI [of _ "executed_entry i p # ex2"] exI [of _ fl2]) simp
  qed
qed

lemma run_points_recorded:
  "client (state w) \<noteq> None \<Longrightarrow> run_points E rh mo i ps ex fl w = (ex', fl', w') \<Longrightarrow>
   k < length ps \<Longrightarrow>
   (case bcap E (calls w @ map (\<lambda>p. joint_move rh p mo) (take k ps)) (joint_move rh (ps ! k) mo) of
      Raises e \<Rightarrow> failed_entry (i + k) (ps ! k) e \<in> set fl'
    | Returns u \<Rightarrow> executed_entry (i + k) (ps ! k) \<in> set ex')"
proof (induction ps arbitrary: i ex fl w k)
  case Nil
  then show ?case by simp
next
  case (Cons p ps)
  let ?w1 = "w\<lparr>calls := calls w @ [joint_move rh p mo]\<rparr>"
  have c1: "client (state ?w1) \<noteq> None" using Cons.prems(1) by simp
  show ?case
  proof (cases "bcap E (calls w) (joint_move rh p mo)")
    case (Raises e)
    with Cons.prems
    have r: "run_points E rh mo (Suc i) ps ex (fl @ [failed_entry i p e]) ?w1 = (ex', fl', w')"
      by (simp add: client_call_connected)
    show ?thesis
    proof (cases k)
      case 0
      from run_points_grows [OF r] have "failed_entry i p e \<in> set fl'" by auto
      with 0 Raises show ?thesis by simp
    next
      case (Suc j)
      with Cons.prems have "j < length ps" by simp
      from Cons.IH [OF c1 r this] show ?thesis unfolding Suc by (simp split: reply.splits)
    qed
  next
    case (Returns u)
    with Cons.prems
    have r: "run_points E rh mo (Suc i) ps (ex @ [executed_entry i p]) fl ?w1 = (ex', fl', w')"
      by (simp add: client_call_connected)
    show ?thesis
    proof (cases k)
      case 0
      from run_points_grows [OF r] have "executed_entry i p \<in> set ex'" by auto
      with 0 Returns show ?thesis by simp
    next
      case (Suc j)
      with Cons.prems have "j < length ps" by simp
      from Cons.IH [OF c1 r this] show ?thesis unfolding Suc by (simp split: reply.splits)
    qed
  qed
qed

text \<open>
  C2. Let the arguments hold an array of points. If some point does not have exactly 6
  components, the call raises and the world is as before: no call went to the client.
  Otherwise, on a session with a robot handle, everything hangs on the one \<^verbatim>\<open>TakeArm\<close>
  before the loop. If it raises, the exception leaves the call. If it returns, one move is
  issued for every point, in the order of the trajectory, whatever the earlier moves
  answered; a point whose move raises is in the failed list with its number and the error,
  a point whose move returns is in the executed list; the two counts add up to the number of
  points; and \<^verbatim>\<open>success\<close> is true exactly when the failed list is empty.
\<close>

theorem execute_trajectory_spec:
  assumes traj: "dict_item args ''trajectory'' = Inr (VList pts)"
    and rh: "rh = robot_handle (state w)"
    and mo: "mo = (if truthy (dict_get args ''option'' (VStr ''''))
                   then dict_get args ''option'' (VStr '''') else VStr '''')"
    and w2: "w2 = snd (client_call E (give_arm rh) (snd (initial_angles_of E rh (\<lambda>v. v) w)))"
  shows
   "((\<exists>p\<in>set pts. py_len p \<noteq> Some 6) \<longrightarrow>
       (\<exists>e. handle_robot_execute_trajectory E args w = (Inl e, w)))
    \<and> (\<forall>e w3. (\<forall>p\<in>set pts. py_len p = Some 6) \<and> truthy rh \<and>
          client_call E (take_arm rh) w2 = (Raises e, w3) \<longrightarrow>
          handle_robot_execute_trajectory E args w = (Inl e, w3))
    \<and> (\<forall>u w3. (\<forall>p\<in>set pts. py_len p = Some 6) \<and> truthy rh \<and>
          client_call E (take_arm rh) w2 = (Returns u, w3) \<longrightarrow>
          (\<exists>ex fl r.
             handle_robot_execute_trajectory E args w =
               (Inr r, log_operation E ''bcap_robot_execute_trajectory'' args r VNone
                         (w3\<lparr>calls := calls w3 @ map (\<lambda>p. joint_move rh p mo) pts\<rparr>))
             \<and> run_points E rh mo 0 pts [] [] w3 =
                 (ex, fl, w3\<lparr>calls := calls w3 @ map (\<lambda>p. joint_move rh p mo) pts\<rparr>)
             \<and> (\<forall>k<length pts.
                   case bcap E (calls w3 @ map (\<lambda>p. joint_move rh p mo) (take k pts))
                          (joint_move rh (pts ! k) mo) of
                     Raises e \<Rightarrow> failed_entry k (pts ! k) e \<in> set fl
                   | Returns u \<Rightarrow> executed_entry k (pts ! k) \<in> set ex)
             \<and> length ex + length fl = length pts
             \<and> result_field r ''total_points'' = VInt (int (length pts))
             \<and> result_field r ''executed_points'' = VInt (int (length ex))
             \<and> result_field r ''failed_points'' = VInt (int (length fl))
             \<and> result_field r ''executed_details'' = VList ex
             \<and> result_field r ''failed_details'' = (if fl = [] then VNone else VList fl)
             \<and> result_field r ''success'' = VBool (fl = [])))"
proof -
  have tp: "trajectory_points (VList pts) = Inr pts" by simp
  have a: "(\<exists>p\<in>set pts. py_len p \<noteq> Some 6) \<longrightarrow>
       (\<exists>e. handle_robot_execute_trajectory E args w = (Inl e, w))"
  proof
    assume "\<exists>p\<in>set pts. py_len p \<noteq> Some 6"
    from validate_points_bad [OF this, of E 0] obtain e where "validate_points E 0 pts = Some e"
      by blast
    then show "\<exists>e. handle_robot_execute_trajectory E args w = (Inl e, w)"
      by (simp add: handle_robot_execute_trajectory_def traj)
  qed
  obtain ia w1 where ia: "initial_angles_of E rh (\<lambda>v. v) w = (ia, w1)"
    by (cases "initial_angles_of E rh (\<lambda>v. v) w") blast
  obtain g w2' where g: "client_call E (give_arm rh) w1 = (g, w2')"
    by (cases "client_call E (give_arm rh) w1") blast
  from ia g w2 have w2': "w2' = w2" by simp
  have b: "\<forall>e w3. (\<forall>p\<in>set pts. py_len p = Some 6) \<and> truthy rh \<and>
          client_call E (take_arm rh) w2 = (Raises e, w3) \<longrightarrow>
          handle_robot_execute_trajectory E args w = (Inl e, w3)"
  proof (intro allI impI)
    fix e w3
    assume h: "(\<forall>p\<in>set pts. py_len p = Some 6) \<and> truthy rh \<and>
          client_call E (take_arm rh) w2 = (Raises e, w3)"
    then have v: "validate_points E 0 pts = None" by (simp add: validate_points_ok)
    from h v ia g w2' show "handle_robot_execute_trajectory E args w = (Inl e, w3)"
      unfolding rh by (simp add: handle_robot_execute_trajectory_def traj)
  qed
  have c: "\<forall>u w3. (\<forall>p\<in>set pts. py_len p = Some 6) \<and> truthy rh \<and>
          client_call E (take_arm rh) w2 = (Returns u, w3) \<longrightarrow>
          (\<exists>ex fl r.
             handle_robot_execute_trajectory E args w =
               (Inr r, log_operation E ''bcap_robot_execute_trajectory'' args r VNone
                         (w3\<lparr>calls := calls w3 @ map (\<lambda>p. joint_move rh p mo) pts\<rparr>))
             \<and> run_points E rh mo 0 pts [] [] w3 =
                 (ex, fl, w3\<lparr>calls := calls w3 @ map (\<lambda>p. joint_move rh p mo) pts\<rparr>)
             \<and> (\<forall>k<length pts.
                   case bcap E (calls w3 @ map (\<lambda>p. joint_move rh p mo) (take k pts))
                          (joint_move rh (pts ! k) mo) of
                     Raises e \<Rightarrow> failed_entry k (pts ! k) e \<in> set fl
                   | Returns u \<Rightarrow> executed_entry k (pts ! k) \<in> set ex)
             \<and> length ex + length fl = length pts
             \<and> result_field r ''total_points'' = VInt (int (length pts))
             \<and> result_field r ''executed_points'' = VInt (int (length ex))
             \<and> result_field r ''failed_points'' = VInt (int (length fl))
             \<and> result_field r ''executed_details'' = VList ex
             \<and> result_field r ''failed_details'' = (if fl = [] then VNone else VList fl)
             \<and> result_field r ''success'' = VBool (fl = []))"
  proof (intro allI impI)
    fix u w3
    assume h: "(\<forall>p\<in>set pts. py_len p = Some 6) \<and> truthy rh \<and>
          client_call E (take_arm rh) w2 = (Returns u, w3)"
    then have v: "validate_points E 0 pts = None" by (simp add: validate_points_ok)
    from h have t: "client_call E (take_arm rh) w2 = (Returns u, w3)" by simp
    from client_call_returns [OF t] have c2: "client (state w2) \<noteq> None" .
    with t have "w3 = w2\<lparr>calls := calls w2 @ [take_arm rh]\<rparr>"
      by (simp add: client_call_connected)
    with c2 have c3: "client (state w3) \<noteq> None" by simp
    obtain ex fl w4 where r: "run_points E rh mo 0 pts [] [] w3 = (ex, fl, w4)"
      by (cases "run_points E rh mo 0 pts [] [] w3") auto
    from run_points_world [OF c3 r]
    have w4: "w4 = w3\<lparr>calls := calls w3 @ map (\<lambda>p. joint_move rh p mo) pts\<rparr>" .
    from run_points_grows [OF r] have len: "length ex + length fl = length pts" by auto
    have rec: "\<forall>k<length pts.
                   case bcap E (calls w3 @ map (\<lambda>p. joint_move rh p mo) (take k pts))
                          (joint_move rh (pts ! k) mo) of
                     Raises e \<Rightarrow> failed_entry k (pts ! k) e \<in> set fl
                   | Returns u \<Rightarrow> executed_entry k (pts ! k) \<in> set ex"
    proof (intro allI impI)
      fix k assume "k < length pts"
      from run_points_recorded [OF c3 r this]
      show "case bcap E (calls w3 @ map (\<lambda>p. joint_move rh p mo) (take k pts))
                          (joint_move rh (pts ! k) mo) of
                     Raises e \<Rightarrow> failed_entry k (pts ! k) e \<in> set fl
                   | Returns u \<Rightarrow> executed_entry k (pts ! k) \<in> set ex"
        by (simp split: reply.splits)
    qed
    define res where "res = VDict
       [(''success'', VBool (length fl = 0)),
        (''message'', VStr (''Trajectory execution completed: ''
            @ py_str E (VInt (int (length ex))) @ ''/''
            @ py_str E (VInt (int (length pts))) @ '' points successful'')),
        (''total_points'', VInt (int (length pts))),
        (''executed_points'', VInt (int (length ex))),
        (''failed_points'', VInt (int (length fl))),
        (''initial_angles'', ia),
        (''trajectory'', VList pts),
        (''executed_details'', VList ex),
        (''failed_details'', if fl \<noteq> [] then VList fl else VNone),
        (''warning'', VStr ''Robot has completed trajectory motion, please check final position'')]"
    have hd: "handle_robot_execute_trajectory E args w =
               (Inr res, log_operation E ''bcap_robot_execute_trajectory'' args res VNone w4)"
      using h v ia g w2' t r unfolding rh mo res_def
      by (simp add: handle_robot_execute_trajectory_def traj Let_def)
    have f: "result_field res ''total_points'' = VInt (int (length pts))
             \<and> result_field res ''executed_points'' = VInt (int (length ex))
             \<and> result_field res ''failed_points'' = VInt (int (length fl))
             \<and> result_field res ''executed_details'' = VList ex
             \<and> result_field res ''failed_details'' = (if fl = [] then VNone else VList fl)
             \<and> result_field res ''success'' = VBool (fl = [])"
      by (simp add: res_def dict_get_def)
    show "\<exists>ex fl r.
             handle_robot_execute_trajectory E args w =
               (Inr r, log_operation E ''bcap_robot_execute_trajectory'' args r VNone
                         (w3\<lparr>calls := calls w3 @ map (\<lambda>p. joint_move rh p mo) pts\<rparr>))
             \<and> run_points E rh mo 0 pts [] [] w3 =
                 (ex, fl, w3\<lparr>calls := calls w3 @ map (\<lambda>p. joint_move rh p mo) pts\<rparr>)
             \<and> (\<forall>k<length pts.
                   case bcap E (calls w3 @ map (\<lambda>p. joint_move rh p mo) (take k pts))
                          (joint_move rh (pts ! k) mo) of
                     Raises e \<Rightarrow> failed_entry k (pts ! k) e \<in> set fl
                   | Returns u \<Rightarrow> executed_entry k (pts ! k) \<in> set ex)
             \<and> length ex + length fl = length pts
             \<and> result_field r ''total_points'' = VInt (int (length pts))
             \<and> result_field r ''executed_points'' = VInt (int (length ex))
             \<and> result_field r ''failed_points'' = VInt (int (length fl))
             \<and> result_field r ''executed_details'' = VList ex
             \<and> result_field r ''failed_details'' = (if fl = [] then VNone else VList fl)
             \<and> result_field r ''success'' = VBool (fl = [])"
      apply (rule exI [of _ ex], rule exI [of _ fl], rule exI [of _ res])
      using hd r rec len f unfolding w4 by (intro conjI) simp_all
  qed
  show ?thesis by (rule conjI [OF a conjI [OF b c]])
qed

theorem execute_trajectory_spec_witness:
  "result_field (projr (fst (handle_robot_execute_trajectory env_second_move_fails
      [(''trajectory'', VList [home_angles, second_point])] connected_world))) ''success''
     = VBool False
   \<and> result_field (projr (fst (handle_robot_execute_trajectory env_second_move_fails
      [(''trajectory'', VList [home_angles, second_point])] connected_world))) ''executed_points''
     = VInt 1
   \<and> result_field (projr (fst (handle_robot_execute_trajectory env_second_move_fails
      [(''trajectory'', VList [home_angles, second_point])] connected_world))) ''failed_points''
     = VInt 1
   \<and> handle_robot_execute_trajectory env_second_move_fails
      [(''trajectory'', VList [home_angles, VList [VInt 0, VInt 0, VInt 0]])] connected_world
     = (Inl (ValueError ''Trajectory point v must have 6 joint angle values''), connected_world)"
proof -
  let ?E = env_second_move_fails
  let ?args = "[(''trajectory'', VList [home_angles, second_point])]"
  let ?pts = "[home_angles, second_point]"
  let ?w2 = "connected_world\<lparr>calls :=
       [robot_getvariable (VInt 2) (VStr ''@CURRENT_ANGLE'') (VStr ''''),
        variable_getvalue (VInt 1), variable_release (VInt 1), give_arm (VInt 2)]\<rparr>"
  let ?w3 = "connected_world\<lparr>calls :=
       [robot_getvariable (VInt 2) (VStr ''@CURRENT_ANGLE'') (VStr ''''),
        variable_getvalue (VInt 1), variable_release (VInt 1), give_arm (VInt 2),
        take_arm (VInt 2)]\<rparr>"
  have traj: "dict_item ?args ''trajectory'' = Inr (VList ?pts)"
    by (simp add: dict_item_def)
  have rh: "VInt 2 = robot_handle (state connected_world)"
    by (simp add: connected_world_def)
  have mo: "VStr '''' = (if truthy (dict_get ?args ''option'' (VStr ''''))
                   then dict_get ?args ''option'' (VStr '''') else VStr '''')"
    by (simp add: dict_get_def)
  have w2: "?w2 = snd (client_call ?E (give_arm (VInt 2))
                    (snd (initial_angles_of ?E (VInt 2) (\<lambda>v. v) connected_world)))"
    by (simp add: initial_angles_of_def read_variable_def read_variable_on_def
        read_variable_opt_def client_call_def invoke_def env_second_move_fails_def env_of_def
        connected_world_def give_arm_def)
  have t: "client_call ?E (take_arm (VInt 2)) ?w2 = (Returns (VInt 1), ?w3)"
    by (simp add: client_call_def invoke_def env_second_move_fails_def env_of_def
        connected_world_def give_arm_def take_arm_def)
  have six: "\<forall>p\<in>set ?pts. py_len p = Some 6"
    by (simp add: home_angles_def second_point_def)
  from execute_trajectory_spec [OF traj rh mo w2] six t
  obtain ex fl r where
    h: "handle_robot_execute_trajectory ?E ?args connected_world =
          (Inr r, log_operation ?E ''bcap_robot_execute_trajectory'' ?args r VNone
                    (?w3\<lparr>calls := calls ?w3 @ map (\<lambda>p. joint_move (VInt 2) p (VStr '''')) ?pts\<rparr>))"
    and rec: "\<forall>k<length ?pts.
                case bcap ?E (calls ?w3 @ map (\<lambda>p. joint_move (VInt 2) p (VStr '''')) (take k ?pts))
                       (joint_move (VInt 2) (?pts ! k) (VStr '''')) of
                  Raises e \<Rightarrow> failed_entry k (?pts ! k) e \<in> set fl
                | Returns u \<Rightarrow> executed_entry k (?pts ! k) \<in> set ex"
    and len: "length ex + length fl = length ?pts"
    and e: "result_field r ''executed_points'' = VInt (int (length ex))"
    and f: "result_field r ''failed_points'' = VInt (int (length fl))"
    and s: "result_field r ''success'' = VBool (fl = [])"
    by (simp add: connected_world_def) blast
  from rec [rule_format, of 0] have ex1: "ex \<noteq> []"
    by (auto simp: env_second_move_fails_def env_of_def joint_move_def home_angles_def
        second_point_def connected_world_def)
  from rec [rule_format, of 1] have fl1: "fl \<noteq> []"
    by (auto simp: env_second_move_fails_def env_of_def joint_move_def home_angles_def
        second_point_def connected_world_def)
  from ex1 fl1 len have l: "length ex = 1 \<and> length fl = 1"
    by (cases ex; cases fl) auto
  have bad: "handle_robot_execute_trajectory ?E
      [(''trajectory'', VList [home_angles, VList [VInt 0, VInt 0, VInt 0]])] connected_world
     = (Inl (ValueError ''Trajectory point v must have 6 joint angle values''), connected_world)"
    by (simp add: handle_robot_execute_trajectory_def dict_item_def home_angles_def
        connected_world_def env_second_move_fails_def env_of_def)
  from h e f s l fl1 bad show ?thesis by simp
qed

section \<open>Pick and place: the commanded targets\<close>















section \<open>Further facts about the saga and the log\<close>

text \<open>
  When it is the moves that fail, and not \<^verbatim>\<open>TakeArm\<close>, the saga does go on: all seven
  moves are attempted, the last one to the initial pose, and all eleven steps are reported.
\<close>

lemma saga_continues_after_failed_moves:
  "length (filter is_robot_move (calls (snd (call_tool env_pose_moves_rejected
      ''bcap_robot_pick_and_place'' [] connected_world)))) = 7
   \<and> last (filter is_robot_move (calls (snd (call_tool env_pose_moves_rejected
      ''bcap_robot_pick_and_place'' [] connected_world)))) =
       pose_move (VInt 2) [VNum 100, VNum 200, VNum 300, VNum 180, VNum 0, VNum 90]
   \<and> result_field (fst (call_tool env_pose_moves_rejected ''bcap_robot_pick_and_place'' []
        connected_world)) ''success'' = VBool False
   \<and> (\<exists>steps. result_field (fst (call_tool env_pose_moves_rejected ''bcap_robot_pick_and_place'' []
        connected_world)) ''steps'' = VList steps \<and> length steps = 11)"
  by (simp add: saga_defs env_pose_moves_rejected_def env_of_def connected_world_def
      initial_pose_example_def)

text \<open>
  A positive limit returns the last \<open>min limit (length log)\<close> entries in order and leaves the
  world as it is; without a limit, 50 is used.
\<close>

lemma operation_log_positive_limit:
  "0 < n \<Longrightarrow>
   handle_get_operation_log E [(''limit'', VInt n)] w =
     (Inr (VDict [(''success'', VBool True),
                  (''total_operations'', VInt (int (length (operation_log (state w))))),
                  (''returned_count'',
                     VInt (int (length (drop (length (operation_log (state w)) - nat n)
                                          (operation_log (state w)))))),
                  (''logs'', VList (drop (length (operation_log (state w)) - nat n)
                                      (operation_log (state w))))]), w)"
  by (simp add: handle_get_operation_log_def dict_get_def slice_from_neg Let_def)

lemma operation_log_default_limit:
  "handle_get_operation_log E [] w = handle_get_operation_log E [(''limit'', VInt 50)] w"
  by (simp add: handle_get_operation_log_def dict_get_def)

end
